theory Spec2Isabelle
  imports Complex_Main "HOL-Library.Log_Nat"
begin

section \<open>Python values\<close>

text \<open>
  The client of \<^verbatim>\<open>camunda/client/async_external_task_client.py\<close> works on loosely
  typed data: the configuration is a dictionary merged over defaults, request bodies are
  dictionaries handed to the JSON encoder. Values are modelled by one datatype.
  Dictionaries are association lists in insertion order, with string keys.
  Floating-point values are not part of the value universe of the configuration and of
  the bodies. The one place where the client computes with them is the true division
  \<^verbatim>\<open>/ 1000\<close> of an integer number of milliseconds; its result, a double, is kept as
  the rational number that the double denotes.
\<close>

datatype pyval =
    PNone
  | PBool bool
  | PInt int
  | PStr string
  | PList "pyval list"
  | PDict "(string \<times> pyval) list"

type_synonym pydict = "(string \<times> pyval) list"

text \<open>Truth value testing: \<^verbatim>\<open>if x\<close>, \<^verbatim>\<open>not x\<close>, \<^verbatim>\<open>x or y\<close>.\<close>

fun truthy :: "pyval \<Rightarrow> bool" where
  "truthy PNone = False"
| "truthy (PBool b) = b"
| "truthy (PInt i) = (i \<noteq> 0)"
| "truthy (PStr s) = (s \<noteq> [])"
| "truthy (PList xs) = (xs \<noteq> [])"
| "truthy (PDict d) = (d \<noteq> [])"

text \<open>\<^verbatim>\<open>isinstance(v, dict)\<close> and \<^verbatim>\<open>isinstance(v, str)\<close>.\<close>

fun is_dict :: "pyval \<Rightarrow> bool" where
  "is_dict (PDict d) = True"
| "is_dict v = False"

fun is_str :: "pyval \<Rightarrow> bool" where
  "is_str (PStr s) = True"
| "is_str v = False"

text \<open>The type of a value, as \<^verbatim>\<open>type(v)\<close> tells it.\<close>

datatype pytype = TNone | TBool | TInt | TStr | TList | TDict

fun type_of :: "pyval \<Rightarrow> pytype" where
  "type_of PNone = TNone"
| "type_of (PBool b) = TBool"
| "type_of (PInt i) = TInt"
| "type_of (PStr s) = TStr"
| "type_of (PList xs) = TList"
| "type_of (PDict d) = TDict"

text \<open>\<^verbatim>\<open>x or y\<close>: the first operand when it is truthy, else the second.\<close>

definition py_or :: "pyval \<Rightarrow> pyval \<Rightarrow> pyval" where
  "py_or x y = (if truthy x then x else y)"

text \<open>The integer behind a numeric value (\<^verbatim>\<open>bool\<close> is a subclass of \<^verbatim>\<open>int\<close>).\<close>

fun num_of :: "pyval \<Rightarrow> int option" where
  "num_of (PInt i) = Some i"
| "num_of (PBool b) = Some (if b then 1 else 0)"
| "num_of v = None"

subsection \<open>Dictionaries\<close>

text \<open>\<^verbatim>\<open>d.get(k)\<close> as an option; \<^verbatim>\<open>d[k] = v\<close>; \<^verbatim>\<open>d.update(u)\<close>.\<close>

definition dict_get :: "pydict \<Rightarrow> string \<Rightarrow> pyval option" where
  "dict_get d k = map_of d k"

fun dict_set :: "pydict \<Rightarrow> string \<Rightarrow> pyval \<Rightarrow> pydict" where
  "dict_set [] k v = [(k, v)]"
| "dict_set ((k', v') # d) k v =
     (if k' = k then (k, v) # d else (k', v') # dict_set d k v)"

fun dict_update :: "pydict \<Rightarrow> pydict \<Rightarrow> pydict" where
  "dict_update d [] = d"
| "dict_update d ((k, v) # u) = dict_update (dict_set d k v) u"

subsection \<open>Errors\<close>

text \<open>
  What the transport (\<^verbatim>\<open>httpx\<close>) hands back: a response with a status code, its body
  text and, when the body is JSON, the decoded value; or no response at all.
\<close>

record response =
  status_code :: nat
  text_body :: string
  json_body :: "pyval option"

datatype transport_failure = TimeoutException | ConnectError

datatype error =
    KeyError string
  | TypeError
  | ZeroDivisionError
  | OverflowError
  | ConfigurationError
  | JSONDecodeError
  | TransportError transport_failure
  | OrchestratorError response
  | HTTPStatusError response

text \<open>Sequencing of steps that may raise: the first exception ends the call.\<close>

definition bindE :: "error + 'a \<Rightarrow> ('a \<Rightarrow> error + 'b) \<Rightarrow> error + 'b" where
  "bindE m f = (case m of Inl e \<Rightarrow> Inl e | Inr x \<Rightarrow> f x)"

subsection \<open>True division of integers\<close>

text \<open>
  \<^verbatim>\<open>a / b\<close> on two integers gives the double nearest to the quotient, a tie going to
  the even mantissa; it raises when \<open>b\<close> is zero and when the rounded quotient is
  beyond the doubles, that is \<open>2 ^ 1024\<close> or more in absolute value. A double is kept
  as the rational number it denotes, so the sign of a zero is not kept.

  Rounding to the nearest integer, a tie going to the even one:
\<close>

definition round_half_even :: "rat \<Rightarrow> int" where
  "round_half_even x =
     (let f = \<lfloor>x\<rfloor>; r = x - of_int f
      in if r < 1 / 2 then f else if 1 / 2 < r then f + 1 else if even f then f else f + 1)"

text \<open>
  The binary exponent of the quotient of two positive integers: the \<open>e\<close> with
  \<open>2 ^ e \<le> n / d < 2 ^ (e + 1)\<close>, found from the bit lengths of the two.
\<close>

definition float_exponent :: "int \<Rightarrow> int \<Rightarrow> int" where
  "float_exponent n d =
     (let e0 = bitlen n - bitlen d
      in if (2::rat) powi e0 * of_int d \<le> of_int n then e0 else e0 - 1)"

text \<open>
  The nearest double to the quotient of two positive integers: the quotient is scaled
  to a mantissa of 53 bits (fewer below the exponent -1022, where the doubles are
  subnormal), the mantissa is rounded, and the result is scaled back.
\<close>

definition nearest_double :: "int \<Rightarrow> int \<Rightarrow> rat" where
  "nearest_double n d =
     (let e = max (float_exponent n d) (- 1022);
          m = round_half_even (of_int n / of_int d * 2 powi (52 - e))
      in of_int m * 2 powi (e - 52))"

definition py_truediv :: "int \<Rightarrow> int \<Rightarrow> error + rat" where
  "py_truediv a b =
     (if b = 0 then Inl ZeroDivisionError
      else if a = 0 then Inr 0
      else let y = nearest_double \<bar>a\<bar> \<bar>b\<bar>
           in if 2 ^ 1024 \<le> y then Inl OverflowError
              else Inr (if (a < 0) = (b < 0) then y else - y))"

section \<open>The client\<close>

record client =
  worker_id :: pyval
  external_task_base_url :: string
  config :: pydict
  is_debug :: pyval
  http_timeout_seconds :: rat

definition default_config :: pydict where
  "default_config =
     [(''maxConcurrentTasks'', PInt 10),
      (''lockDuration'', PInt 300000),
      (''asyncResponseTimeout'', PInt 30000),
      (''retries'', PInt 3),
      (''retryTimeout'', PInt 300000),
      (''httpTimeoutMillis'', PInt 30000),
      (''timeoutDeltaMillis'', PInt 5000),
      (''includeExtensionProperties'', PBool True),
      (''deserializeValues'', PBool True),
      (''usePriority'', PBool False),
      (''sorting'', PNone)]"

text \<open>\<^verbatim>\<open>self.config[k]\<close> raises on a missing key, \<^verbatim>\<open>self.config.get(k)\<close> gives None.\<close>

definition config_item :: "client \<Rightarrow> string \<Rightarrow> error + pyval" where
  "config_item c k = (case dict_get (config c) k of None \<Rightarrow> Inl (KeyError k) | Some v \<Rightarrow> Inr v)"

definition config_get :: "client \<Rightarrow> string \<Rightarrow> pyval" where
  "config_get c k = (case dict_get (config c) k of None \<Rightarrow> PNone | Some v \<Rightarrow> v)"

text \<open>\<^verbatim>\<open>x / 1000\<close>: the true division on numbers, a TypeError on anything else.\<close>

definition div_1000 :: "pyval \<Rightarrow> error + rat" where
  "div_1000 v = (case num_of v of None \<Rightarrow> Inl TypeError | Some i \<Rightarrow> py_truediv i 1000)"

text \<open>
  \<^verbatim>\<open>__init__\<close>: the given configuration (an empty one when None) is merged over a copy
  of the defaults. The log line written last, which passes the configuration through
  \<^verbatim>\<open>obfuscate_password\<close> (not among the sources), is left out.
\<close>

definition init :: "pyval \<Rightarrow> string \<Rightarrow> pydict option \<Rightarrow> error + client" where
  "init wid engine_base_url cfg =
     (let cfg0 = (case cfg of None \<Rightarrow> [] | Some u \<Rightarrow> u);
          merged = dict_update default_config cfg0;
          debug = (case dict_get cfg0 ''isDebug'' of None \<Rightarrow> PBool False | Some v \<Rightarrow> v)
      in bindE (div_1000 (case dict_get merged ''httpTimeoutMillis'' of None \<Rightarrow> PNone | Some v \<Rightarrow> v))
           (\<lambda>secs. Inr \<lparr>worker_id = wid,
                         external_task_base_url = engine_base_url @ ''/external-task'',
                         config = merged,
                         is_debug = debug,
                         http_timeout_seconds = secs\<rparr>))"

text \<open>
  \<^verbatim>\<open>__get_fetch_and_lock_http_timeout_seconds\<close>: the sum of the two configured values,
  in seconds. Both lookups raise KeyError on a missing key; a sum that is not a number
  cannot be divided (and operands of unlike kinds cannot be added), a TypeError; the sum
  of two integers is exact, and its division by 1000 is the true division.
\<close>

definition get_fetch_and_lock_http_timeout_seconds :: "client \<Rightarrow> error + rat" where
  "get_fetch_and_lock_http_timeout_seconds c =
     bindE (config_item c ''timeoutDeltaMillis'') (\<lambda>d.
     bindE (config_item c ''asyncResponseTimeout'') (\<lambda>t.
       (case (num_of d, num_of t) of
          (Some a, Some b) \<Rightarrow> py_truediv (a + b) 1000
        | _ \<Rightarrow> Inl TypeError)))"

section \<open>Collaborators\<close>

text \<open>What a call hands to the transport: \<^verbatim>\<open>client.post(url, headers, json, timeout)\<close>.\<close>

record request =
  url :: string
  headers :: pydict
  json :: pydict
  timeout :: rat

text \<open>
  The parts the client uses without defining them are parameters of the model: the
  built-in \<^verbatim>\<open>str\<close>, the wire format that \<^verbatim>\<open>Variables.format\<close> gives a present
  mapping, the header values computed by \<^verbatim>\<open>AuthBasic\<close> and \<^verbatim>\<open>AuthBearer\<close> (None
  when the credential configuration is rejected), and the transport, which answers a
  request with a response or fails without one.
\<close>

record env =
  py_str :: "pyval \<Rightarrow> string"
  format_present :: "pyval \<Rightarrow> pyval"
  AuthBasic_token :: "pyval \<Rightarrow> string option"
  AuthBearer_access_token :: "pyval \<Rightarrow> string option"
  post :: "request \<Rightarrow> transport_failure + response"

text \<open>
  Modelled from the spec: \<^verbatim>\<open>str_to_list\<close> (\<^verbatim>\<open>camunda.utils.utils\<close>) is not among
  the sources. The spec has the topic names as an ordered sequence of topic identifiers
  and "accepts a single identifier as well -- normalize to a one-element sequence".
  On a value that is neither, where the spec is silent, the model yields no topic.
\<close>

fun str_to_list :: "pyval \<Rightarrow> pyval list" where
  "str_to_list (PStr s) = [PStr s]"
| "str_to_list (PList xs) = xs"
| "str_to_list v = []"

text \<open>
  Modelled from the spec: \<^verbatim>\<open>Variables.format\<close> (\<^verbatim>\<open>camunda.variables.variables\<close>) is
  not among the sources. The spec has it "accept None/absent maps and produce a valid
  empty representation, never fail on absence"; the empty representation is taken to be
  the empty mapping. The wire format of a present mapping is not specified and comes
  from the environment.
\<close>

definition Variables_format :: "env \<Rightarrow> pyval \<Rightarrow> pyval" where
  "Variables_format env variables =
     (if variables = PNone then PDict [] else format_present env variables)"

text \<open>\<^verbatim>\<open>httpx.Response.is_success\<close>: the status code is in the 2xx range.\<close>

definition is_success :: "response \<Rightarrow> bool" where
  "is_success r = (200 \<le> status_code r \<and> status_code r \<le> 299)"

text \<open>
  Modelled from the spec: \<^verbatim>\<open>raise_exception_if_not_ok\<close>
  (\<^verbatim>\<open>camunda.utils.response_utils\<close>) is not among the sources. By the spec "any non-2xx
  HTTP status surfaces as an orchestrator-rejected error carrying status code and body".
\<close>

definition raise_exception_if_not_ok :: "response \<Rightarrow> error + unit" where
  "raise_exception_if_not_ok r = (if is_success r then Inr () else Inl (OrchestratorError r))"

text \<open>
  \<^verbatim>\<open>httpx.Response.raise_for_status\<close>: returns on success and raises
  \<^verbatim>\<open>HTTPStatusError\<close>, which holds the response, on every other status.
\<close>

definition raise_for_status :: "response \<Rightarrow> error + unit" where
  "raise_for_status r = (if is_success r then Inr () else Inl (HTTPStatusError r))"

text \<open>\<^verbatim>\<open>response.json()\<close> raises when the body does not decode.\<close>

definition response_json :: "response \<Rightarrow> error + pyval" where
  "response_json r = (case json_body r of None \<Rightarrow> Inl JSONDecodeError | Some v \<Rightarrow> Inr v)"

text \<open>\<^verbatim>\<open>HTTPStatus.NO_CONTENT\<close>.\<close>

definition NO_CONTENT :: nat where
  "NO_CONTENT = 204"

text \<open>
  \<^verbatim>\<open>await client.post(...)\<close>: the exception of a transport that gave no response
  passes through the client unchanged.
\<close>

definition send :: "env \<Rightarrow> request \<Rightarrow> error + response" where
  "send env req = (case post env req of Inl f \<Rightarrow> Inl (TransportError f) | Inr r \<Rightarrow> Inr r)"

section \<open>Topic subscriptions\<close>

text \<open>The dictionary appended for one topic in the loop of \<^verbatim>\<open>_get_topics\<close>.\<close>

definition topic_entry :: "client \<Rightarrow> pyval \<Rightarrow> pyval \<Rightarrow> pyval \<Rightarrow> error + pydict" where
  "topic_entry c topic process_variables variables =
     bindE (config_item c ''lockDuration'') (\<lambda>lock_duration.
     bindE (config_item c ''deserializeValues'') (\<lambda>deserialize_values.
       Inr [(''topicName'', topic),
            (''lockDuration'', lock_duration),
            (''processVariables'', if truthy process_variables then process_variables else PDict []),
            (''includeExtensionProperties'',
               py_or (config_get c ''includeExtensionProperties'') (PBool False)),
            (''deserializeValues'', deserialize_values),
            (''variables'', variables)]))"

fun get_topics_loop ::
  "client \<Rightarrow> pyval list \<Rightarrow> pyval \<Rightarrow> pyval \<Rightarrow> pydict list \<Rightarrow> error + pydict list" where
  "get_topics_loop c [] process_variables variables topics = Inr topics"
| "get_topics_loop c (topic # rest) process_variables variables topics =
     bindE (topic_entry c topic process_variables variables) (\<lambda>entry.
       get_topics_loop c rest process_variables variables (topics @ [entry]))"

definition get_topics :: "client \<Rightarrow> pyval \<Rightarrow> pyval \<Rightarrow> pyval \<Rightarrow> error + pydict list" where
  "get_topics c topic_names process_variables variables =
     get_topics_loop c (str_to_list topic_names) process_variables variables []"

section \<open>Request bodies\<close>

definition fetch_and_lock_body ::
  "env \<Rightarrow> client \<Rightarrow> pyval \<Rightarrow> pyval \<Rightarrow> pyval \<Rightarrow> error + pydict" where
  "fetch_and_lock_body env c topic_names process_variables variables =
     bindE (get_topics c topic_names process_variables variables) (\<lambda>topics.
     bindE (config_item c ''asyncResponseTimeout'') (\<lambda>async_response_timeout.
     bindE (config_item c ''usePriority'') (\<lambda>use_priority.
     bindE (config_item c ''sorting'') (\<lambda>sorting.
       Inr [(''workerId'', PStr (py_str env (worker_id c))),
            (''maxTasks'', PInt 1),
            (''topics'', PList (map PDict topics)),
            (''asyncResponseTimeout'', async_response_timeout),
            (''usePriority'', use_priority),
            (''sorting'', sorting)]))))"

definition complete_body :: "env \<Rightarrow> client \<Rightarrow> pyval \<Rightarrow> pyval \<Rightarrow> pydict" where
  "complete_body env c global_variables local_variables =
     [(''workerId'', worker_id c),
      (''variables'', Variables_format env global_variables),
      (''localVariables'', Variables_format env local_variables)]"

definition failure_body :: "client \<Rightarrow> pyval \<Rightarrow> pyval \<Rightarrow> pyval \<Rightarrow> pyval \<Rightarrow> pydict" where
  "failure_body c error_message error_details retries retry_timeout =
     (let body = [(''workerId'', worker_id c),
                  (''errorMessage'', error_message),
                  (''retries'', retries),
                  (''retryTimeout'', retry_timeout)]
      in if truthy error_details then dict_set body ''errorDetails'' error_details else body)"

definition bpmn_failure_body :: "env \<Rightarrow> client \<Rightarrow> pyval \<Rightarrow> pyval \<Rightarrow> pyval \<Rightarrow> pydict" where
  "bpmn_failure_body env c error_code error_message variables =
     [(''workerId'', worker_id c),
      (''errorCode'', error_code),
      (''errorMessage'', error_message),
      (''variables'', Variables_format env variables)]"

section \<open>Headers\<close>

text \<open>
  The two credential properties. Each gives the empty dictionary unless its
  configuration entry is a non-empty dictionary, and else asks the credential class for
  the header value.
\<close>

definition auth_basic :: "env \<Rightarrow> client \<Rightarrow> error + pydict" where
  "auth_basic env c =
     (if \<not> truthy (config_get c ''auth_basic'') \<or> \<not> is_dict (config_get c ''auth_basic'')
      then Inr []
      else (case AuthBasic_token env (config_get c ''auth_basic'') of
              None \<Rightarrow> Inl ConfigurationError
            | Some token \<Rightarrow> Inr [(''Authorization'', PStr token)]))"

definition auth_bearer :: "env \<Rightarrow> client \<Rightarrow> error + pydict" where
  "auth_bearer env c =
     (if \<not> truthy (config_get c ''auth_bearer'') \<or> \<not> is_dict (config_get c ''auth_bearer'')
      then Inr []
      else bindE (config_item c ''auth_bearer'') (\<lambda>entry.
             (case AuthBearer_access_token env entry of
                None \<Rightarrow> Inl ConfigurationError
              | Some token \<Rightarrow> Inr [(''Authorization'', PStr token)])))"

text \<open>
  \<^verbatim>\<open>_get_headers\<close>: each property is read once for the test and once more for the
  update, the basic one before the bearer one.
\<close>

definition get_headers :: "env \<Rightarrow> client \<Rightarrow> error + pydict" where
  "get_headers env c =
     bindE (auth_basic env c) (\<lambda>basic.
     bindE (if basic \<noteq> []
            then bindE (auth_basic env c) (\<lambda>basic'.
                   Inr (dict_update [(''Content-Type'', PStr ''application/json'')] basic'))
            else Inr [(''Content-Type'', PStr ''application/json'')]) (\<lambda>hdrs.
     bindE (auth_bearer env c) (\<lambda>bearer.
       if bearer \<noteq> []
       then bindE (auth_bearer env c) (\<lambda>bearer'. Inr (dict_update hdrs bearer'))
       else Inr hdrs)))"

section \<open>The four operations\<close>

text \<open>
  The endpoint of each operation. The task identifier is rendered into the path of the
  three reporting endpoints as \<^verbatim>\<open>str\<close> renders it.
\<close>

definition get_fetch_and_lock_url :: "client \<Rightarrow> string" where
  "get_fetch_and_lock_url c = external_task_base_url c @ ''/fetchAndLock''"

definition get_task_complete_url :: "env \<Rightarrow> client \<Rightarrow> pyval \<Rightarrow> string" where
  "get_task_complete_url env c task_id =
     external_task_base_url c @ ''/'' @ py_str env task_id @ ''/complete''"

definition get_task_failure_url :: "env \<Rightarrow> client \<Rightarrow> pyval \<Rightarrow> string" where
  "get_task_failure_url env c task_id =
     external_task_base_url c @ ''/'' @ py_str env task_id @ ''/failure''"

definition get_task_bpmn_error_url :: "env \<Rightarrow> client \<Rightarrow> pyval \<Rightarrow> string" where
  "get_task_bpmn_error_url env c task_id =
     external_task_base_url c @ ''/'' @ py_str env task_id @ ''/bpmnError''"

text \<open>
  Each operation first puts its request together (the body, then for the long poll the
  deadline, then the headers), which may raise before anything is sent.
\<close>

definition fetch_and_lock_request ::
  "env \<Rightarrow> client \<Rightarrow> pyval \<Rightarrow> pyval \<Rightarrow> pyval \<Rightarrow> error + request" where
  "fetch_and_lock_request env c topic_names process_variables variables =
     bindE (fetch_and_lock_body env c topic_names process_variables variables) (\<lambda>body.
     bindE (get_fetch_and_lock_http_timeout_seconds c) (\<lambda>secs.
     bindE (get_headers env c) (\<lambda>hdrs.
       Inr \<lparr>url = get_fetch_and_lock_url c, headers = hdrs, json = body, timeout = secs\<rparr>)))"

definition complete_request ::
  "env \<Rightarrow> client \<Rightarrow> pyval \<Rightarrow> pyval \<Rightarrow> pyval \<Rightarrow> error + request" where
  "complete_request env c task_id global_variables local_variables =
     bindE (get_headers env c) (\<lambda>hdrs.
       Inr \<lparr>url = get_task_complete_url env c task_id, headers = hdrs,
            json = complete_body env c global_variables local_variables,
            timeout = http_timeout_seconds c\<rparr>)"

definition failure_request ::
  "env \<Rightarrow> client \<Rightarrow> pyval \<Rightarrow> pyval \<Rightarrow> pyval \<Rightarrow> pyval \<Rightarrow> pyval \<Rightarrow> error + request" where
  "failure_request env c task_id error_message error_details retries retry_timeout =
     bindE (get_headers env c) (\<lambda>hdrs.
       Inr \<lparr>url = get_task_failure_url env c task_id, headers = hdrs,
            json = failure_body c error_message error_details retries retry_timeout,
            timeout = http_timeout_seconds c\<rparr>)"

definition bpmn_failure_request ::
  "env \<Rightarrow> client \<Rightarrow> pyval \<Rightarrow> pyval \<Rightarrow> pyval \<Rightarrow> pyval \<Rightarrow> error + request" where
  "bpmn_failure_request env c task_id error_code error_message variables =
     bindE (get_headers env c) (\<lambda>hdrs.
       Inr \<lparr>url = get_task_bpmn_error_url env c task_id, headers = hdrs,
            json = bpmn_failure_body env c error_code error_message variables,
            timeout = http_timeout_seconds c\<rparr>)"

text \<open>
  Then the request is posted and the response examined. The log lines written on the
  way (with \<^verbatim>\<open>isDebug\<close>, and by \<^verbatim>\<open>failure\<close>) do not bear on the result and are
  left out. \<^verbatim>\<open>fetch_and_lock\<close>,
  \<^verbatim>\<open>complete\<close> and \<^verbatim>\<open>failure\<close> check it with \<^verbatim>\<open>raise_exception_if_not_ok\<close>,
  \<^verbatim>\<open>bpmn_failure\<close> with \<^verbatim>\<open>response.raise_for_status()\<close>.
\<close>

definition fetch_and_lock :: "env \<Rightarrow> client \<Rightarrow> pyval \<Rightarrow> pyval \<Rightarrow> pyval \<Rightarrow> error + pyval" where
  "fetch_and_lock env c topic_names process_variables variables =
     bindE (fetch_and_lock_request env c topic_names process_variables variables) (\<lambda>req.
     bindE (send env req) (\<lambda>resp.
     bindE (raise_exception_if_not_ok resp) (\<lambda>_.
       response_json resp)))"

definition complete_task :: "env \<Rightarrow> client \<Rightarrow> pyval \<Rightarrow> pyval \<Rightarrow> pyval \<Rightarrow> error + bool" where
  "complete_task env c task_id global_variables local_variables =
     bindE (complete_request env c task_id global_variables local_variables) (\<lambda>req.
     bindE (send env req) (\<lambda>resp.
     bindE (raise_exception_if_not_ok resp) (\<lambda>_.
       Inr (status_code resp = NO_CONTENT))))"

definition failure ::
  "env \<Rightarrow> client \<Rightarrow> pyval \<Rightarrow> pyval \<Rightarrow> pyval \<Rightarrow> pyval \<Rightarrow> pyval \<Rightarrow> error + bool" where
  "failure env c task_id error_message error_details retries retry_timeout =
     bindE (failure_request env c task_id error_message error_details retries retry_timeout) (\<lambda>req.
     bindE (send env req) (\<lambda>resp.
     bindE (raise_exception_if_not_ok resp) (\<lambda>_.
       Inr (status_code resp = NO_CONTENT))))"

definition bpmn_failure ::
  "env \<Rightarrow> client \<Rightarrow> pyval \<Rightarrow> pyval \<Rightarrow> pyval \<Rightarrow> pyval \<Rightarrow> error + bool" where
  "bpmn_failure env c task_id error_code error_message variables =
     bindE (bpmn_failure_request env c task_id error_code error_message variables) (\<lambda>req.
     bindE (send env req) (\<lambda>resp.
     bindE (raise_for_status resp) (\<lambda>_.
       Inr (status_code resp = NO_CONTENT))))"

section \<open>A worker and its surroundings, for examples\<close>

text \<open>
  An environment whose transport gives every request the same answer; a response with a
  given status; and a client as \<^verbatim>\<open>__init__\<close> builds it for the worker 7 at the
  local engine from a given configuration with the default \<^verbatim>\<open>httpTimeoutMillis\<close>.
  In this environment \<^verbatim>\<open>str\<close> keeps a string and renders the only other value it
  meets, the worker's number, as ``7''.
\<close>

definition example_env :: "transport_failure + response \<Rightarrow> env" where
  "example_env answer =
     \<lparr>py_str = (\<lambda>v. case v of PStr s \<Rightarrow> s | _ \<Rightarrow> ''7''),
      format_present = (\<lambda>v. v),
      AuthBasic_token = (\<lambda>v. Some ''Basic ZGVtbzpkZW1v''),
      AuthBearer_access_token = (\<lambda>v. Some ''Bearer t0k3n''),
      post = (\<lambda>req. answer)\<rparr>"

definition example_response :: "nat \<Rightarrow> response" where
  "example_response status = \<lparr>status_code = status, text_body = [], json_body = Some (PList [])\<rparr>"

definition example_client :: "pydict \<Rightarrow> client" where
  "example_client cfg =
     \<lparr>worker_id = PInt 7,
      external_task_base_url = ''http://localhost:8080/engine-rest/external-task'',
      config = dict_update default_config cfg,
      is_debug = PBool False,
      http_timeout_seconds = 30\<rparr>"

section \<open>Basic facts\<close>

lemma bindE_Inl [simp]: "bindE (Inl e) f = Inl e"
  by (simp add: bindE_def)

lemma bindE_Inr [simp]: "bindE (Inr x) f = f x"
  by (simp add: bindE_def)

lemma bindE_eq_Inr: "bindE m f = Inr y \<longleftrightarrow> (\<exists>x. m = Inr x \<and> f x = Inr y)"
  by (cases m) simp_all

lemma dict_get_dict_set:
  "dict_get (dict_set d k v) k' = (if k' = k then Some v else dict_get d k')"
  by (induction d) (auto simp: dict_get_def)

subsection \<open>The true division\<close>

text \<open>
  The exponent is the right one, rounding moves a mantissa by a half at most, and so
  the division is exact on a quotient that is an integer below \<open>2 ^ 53\<close>, is within
  the relative error \<open>2 ^ -53\<close> otherwise, and raises from \<open>2 ^ 1024\<close> on.
\<close>

lemma bitlen_powi:
  assumes "0 < x"
  shows "(2::rat) powi (bitlen x - 1) \<le> of_int x" and "of_int x < (2::rat) powi bitlen x"
proof -
  have pos: "1 \<le> bitlen x"
    using assms bitlen_eq_zero_iff [of x] bitlen_nonneg [of x] by linarith
  have "(2::int) ^ nat (bitlen x - 1) \<le> x" and "x < 2 ^ nat (bitlen x)"
    using bitlen_bounds [OF assms] by simp_all
  then have "(of_int ((2::int) ^ nat (bitlen x - 1)) :: rat) \<le> of_int x"
    and "(of_int x :: rat) < of_int (2 ^ nat (bitlen x))"
    by (simp_all only: of_int_le_iff of_int_less_iff)
  then show "(2::rat) powi (bitlen x - 1) \<le> of_int x" and "of_int x < (2::rat) powi bitlen x"
    using pos by (simp_all add: power_int_def)
qed

lemma float_exponent_bounds:
  assumes "0 < n" and "0 < d"
  shows "(2::rat) powi float_exponent n d * of_int d \<le> of_int n"
    and "of_int n < (2::rat) powi (float_exponent n d + 1) * of_int d"
proof -
  let ?e0 = "bitlen n - bitlen d"
  have d: "(0::rat) < of_int d" using assms(2) by simp
  have "of_int n < (2::rat) powi bitlen n"
    by (rule bitlen_powi(2) [OF assms(1)])
  also have "(2::rat) powi bitlen n = 2 powi (?e0 + 1) * 2 powi (bitlen d - 1)"
    by (simp add: power_int_add [symmetric])
  also have "\<dots> \<le> 2 powi (?e0 + 1) * of_int d"
    using bitlen_powi(1) [OF assms(2)] by (simp add: mult_left_mono)
  finally have upper: "of_int n < (2::rat) powi (?e0 + 1) * of_int d" .
  have "(2::rat) powi (?e0 - 1) * of_int d < 2 powi (?e0 - 1) * 2 powi bitlen d"
    using bitlen_powi(2) [OF assms(2)] by (simp add: mult_strict_left_mono)
  also have "\<dots> = 2 powi (bitlen n - 1)"
    by (simp add: power_int_add [symmetric])
  also have "\<dots> \<le> of_int n"
    by (rule bitlen_powi(1) [OF assms(1)])
  finally have lower: "(2::rat) powi (?e0 - 1) * of_int d \<le> of_int n" by simp
  show "(2::rat) powi float_exponent n d * of_int d \<le> of_int n"
    using lower by (simp add: float_exponent_def Let_def)
  show "of_int n < (2::rat) powi (float_exponent n d + 1) * of_int d"
    using upper by (simp add: float_exponent_def Let_def not_le)
qed

lemma round_half_even_of_int [simp]: "round_half_even (of_int k) = k"
  by (simp add: round_half_even_def)

lemma round_half_even_error: "\<bar>of_int (round_half_even x) - x\<bar> \<le> 1 / 2"
proof -
  have "of_int \<lfloor>x\<rfloor> \<le> x" and "x < of_int \<lfloor>x\<rfloor> + 1"
    by linarith+
  then show ?thesis
    by (auto simp: round_half_even_def Let_def)
qed

lemma round_half_even_ge: "of_int k \<le> x \<Longrightarrow> k \<le> round_half_even x"
proof -
  assume "of_int k \<le> x"
  then have "k \<le> \<lfloor>x\<rfloor>" by (simp add: le_floor_iff)
  then show ?thesis
    by (auto simp: round_half_even_def Let_def)
qed


lemma powi_two_less_cancel: "(2::rat) powi i < 2 powi j \<Longrightarrow> i < j"
proof (rule ccontr)
  assume "(2::rat) powi i < 2 powi j" and "\<not> i < j"
  then have "(2::rat) powi j \<le> 2 powi i"
    by (intro power_int_increasing) simp_all
  with \<open>(2::rat) powi i < 2 powi j\<close> show False by simp
qed

lemma powi_two_cancel: "(2::rat) powi i * 2 powi (- i) = 1"
  by (simp add: power_int_add [symmetric])

lemma nearest_double_exact:
  assumes "0 < k" and "0 < d" and "k < 2 ^ 53"
  shows "nearest_double (k * d) d = of_int k"
proof -
  have x: "(of_int (k * d) :: rat) / of_int d = of_int k"
    using assms(2) by simp
  define fe where "fe = float_exponent (k * d) d"
  have "(2::rat) powi fe * of_int d \<le> of_int (k * d)"
    unfolding fe_def using assms(1,2) by (intro float_exponent_bounds) simp_all
  then have "(2::rat) powi fe \<le> of_int k"
    using assms(2) by simp
  also have "(of_int k :: rat) < of_int (2 ^ 53)"
    using assms(3) by (simp only: of_int_less_iff)
  finally have "(2::rat) powi fe < 2 powi 53" by simp
  then have fe: "fe < 53" by (rule powi_two_less_cancel)
  define e where "e = max fe (- 1022)"
  have e: "e \<le> 52" using fe by (simp add: e_def)
  define s where "s = nat (52 - e)"
  have s: "52 - e = int s" using e by (simp add: s_def)
  have t: "(of_int k :: rat) * 2 powi (52 - e) = of_int (k * 2 ^ s)"
    by (simp add: s)
  have m: "round_half_even ((of_int k :: rat) * 2 powi (52 - e)) = k * 2 ^ s"
    by (simp only: t round_half_even_of_int)
  have "e - 52 = - int s" using s by simp
  then have y: "(of_int (k * 2 ^ s) :: rat) * 2 powi (e - 52) = of_int k"
    using powi_two_cancel [of "int s"] by (simp add: mult.assoc)
  have "nearest_double (k * d) d =
      of_int (round_half_even (of_int (k * d) / of_int d * 2 powi (52 - e))) * 2 powi (e - 52)"
    by (simp only: nearest_double_def Let_def fe_def e_def)
  also have "\<dots> = of_int k"
    by (simp only: x m y)
  finally show ?thesis .
qed

lemma py_truediv_exact:
  assumes "0 < b" and "b dvd a" and "\<bar>a div b\<bar> < 2 ^ 53"
  shows "py_truediv a b = Inr (of_int (a div b))"
proof (cases "a = 0")
  case True
  then show ?thesis using assms(1) by (simp add: py_truediv_def)
next
  case False
  define k where "k = a div b"
  have a: "a = k * b" using assms(2) by (simp add: k_def)
  have k0: "k \<noteq> 0" using False a by auto
  have n: "\<bar>a\<bar> = \<bar>k\<bar> * b" "\<bar>b\<bar> = b" using assms(1) by (simp_all add: a abs_mult)
  have y: "nearest_double \<bar>a\<bar> \<bar>b\<bar> = of_int \<bar>k\<bar>"
    unfolding n using k0 assms(1,3) by (intro nearest_double_exact) (simp_all add: k_def)
  have "(of_int \<bar>k\<bar> :: rat) < of_int (2 ^ 53)"
    using assms(3) unfolding k_def by (simp only: of_int_less_iff)
  also have "\<dots> \<le> (2::rat) ^ 1024" by simp
  finally have small: "\<not> (2::rat) ^ 1024 \<le> of_int \<bar>k\<bar>" by simp
  have sign: "(if (a < 0) = (b < 0) then (of_int \<bar>k\<bar> :: rat) else - of_int \<bar>k\<bar>) = of_int k"
    using assms(1) k0 by (auto simp: a mult_less_0_iff)
  have "py_truediv a b =
      (if (2::rat) ^ 1024 \<le> of_int \<bar>k\<bar> then Inl OverflowError
       else Inr (if (a < 0) = (b < 0) then of_int \<bar>k\<bar> else - of_int \<bar>k\<bar>))"
    using False assms(1) by (simp only: py_truediv_def Let_def y) simp
  also have "\<dots> = Inr (of_int k)"
    by (simp only: small sign if_False)
  finally show ?thesis by (simp only: k_def)
qed

lemma py_truediv_examples:
  "py_truediv 30000 1000 = Inr 30"
  "py_truediv 35000 1000 = Inr 35"
  using py_truediv_exact [of 1000 30000] py_truediv_exact [of 1000 35000] by simp_all

text \<open>The quotient 1001 / 1000 is no double; the nearest one is a little less.\<close>

lemma py_truediv_1001: "py_truediv 1001 1000 = Inr (4508103226997866 / 2 ^ 52)"
  by code_simp


lemma nearest_double_error:
  assumes "0 < n" and "0 < d" and "- 1022 \<le> float_exponent n d"
  shows "\<bar>nearest_double n d - of_int n / of_int d\<bar> \<le> of_int n / of_int d / 2 ^ 53"
proof -
  define e where "e = float_exponent n d"
  define x :: rat where "x = of_int n / of_int d"
  define t where "t = x * 2 powi (52 - e)"
  have d: "(0::rat) < of_int d" using assms(2) by simp
  have "(2::rat) powi e * of_int d \<le> of_int n"
    unfolding e_def by (rule float_exponent_bounds(1) [OF assms(1,2)])
  then have low: "(2::rat) powi e \<le> x"
    using d by (simp add: x_def pos_le_divide_eq)
  have y: "nearest_double n d = of_int (round_half_even t) * 2 powi (e - 52)"
    using assms(3) by (simp add: nearest_double_def Let_def e_def x_def t_def max_def)
  have tx: "t * 2 powi (e - 52) = x"
    by (simp add: t_def mult.assoc power_int_add [symmetric])
  have "nearest_double n d - x = (of_int (round_half_even t) - t) * 2 powi (e - 52)"
    by (simp add: y tx left_diff_distrib)
  then have "\<bar>nearest_double n d - x\<bar> = \<bar>of_int (round_half_even t) - t\<bar> * 2 powi (e - 52)"
    by (simp add: abs_mult)
  also have "\<dots> \<le> 1 / 2 * 2 powi (e - 52)"
    by (intro mult_right_mono round_half_even_error) simp
  also have "1 / 2 * (2::rat) powi (e - 52) = 2 powi e / 2 ^ 53"
  proof -
    have "(2::rat) powi (e - 52) = 2 powi e * 2 powi (- 52)"
      using power_int_add [of "2::rat" e "- 52"] by simp
    then show ?thesis by (simp add: power_int_minus field_simps)
  qed
  also have "\<dots> \<le> x / 2 ^ 53"
    using low by (simp add: divide_right_mono)
  finally show ?thesis by (simp add: x_def)
qed

lemma nearest_double_overflow:
  assumes "0 < d" and "2 ^ 1024 * d \<le> n"
  shows "2 ^ 1024 \<le> nearest_double n d"
proof -
  have n: "0 < n"
  proof -
    have "0 < 2 ^ 1024 * d" using assms(1) by simp
    with assms(2) show ?thesis by linarith
  qed
  define e where "e = float_exponent n d"
  define x :: rat where "x = of_int n / of_int d"
  define t where "t = x * 2 powi (52 - e)"
  have d: "(0::rat) < of_int d" using assms(1) by simp
  have "(of_int (2 ^ 1024 * d) :: rat) \<le> of_int n"
    using assms(2) by (simp only: of_int_le_iff)
  then have big: "(2::rat) powi 1024 * of_int d \<le> of_int n" by simp
  also have "(of_int n :: rat) < 2 powi (e + 1) * of_int d"
    unfolding e_def by (rule float_exponent_bounds(2) [OF n assms(1)])
  finally have "(2::rat) powi 1024 < 2 powi (e + 1)"
    using d by simp
  then have e: "1024 \<le> e"
    using powi_two_less_cancel [of 1024 "e + 1"] by simp
  have "(2::rat) powi e * of_int d \<le> of_int n"
    unfolding e_def by (rule float_exponent_bounds(1) [OF n assms(1)])
  then have low: "(2::rat) powi e \<le> x"
    using d by (simp add: x_def pos_le_divide_eq)
  have y: "nearest_double n d = of_int (round_half_even t) * 2 powi (e - 52)"
    using e by (simp add: nearest_double_def Let_def e_def x_def t_def max_def)
  have "(2::rat) powi e * 2 powi (52 - e) \<le> t"
    unfolding t_def using low by (intro mult_right_mono) simp_all
  then have "(of_int (2 ^ 52) :: rat) \<le> t"
    by (simp add: power_int_add [symmetric])
  then have "2 ^ 52 \<le> round_half_even t"
    by (rule round_half_even_ge)
  then have "(of_int (2 ^ 52) :: rat) \<le> of_int (round_half_even t)"
    by (simp only: of_int_le_iff)
  then have "(2::rat) ^ 52 * 2 powi (e - 52) \<le> nearest_double n d"
    unfolding y by (intro mult_right_mono) simp_all
  moreover have "(2::rat) ^ 52 * 2 powi (e - 52) = 2 powi e"
    using power_int_add [of "2::rat" 52 "e - 52"] by simp
  moreover have "(2::rat) powi 1024 \<le> 2 powi e"
    using e by (intro power_int_increasing) simp_all
  ultimately show ?thesis by simp
qed

lemma py_truediv_overflow:
  assumes "0 < b" and "2 ^ 1024 * b \<le> \<bar>a\<bar>"
  shows "py_truediv a b = Inl OverflowError"
proof -
  have "a \<noteq> 0"
  proof
    assume "a = 0"
    moreover have "0 < 2 ^ 1024 * b" using assms(1) by simp
    ultimately show False using assms(2) by simp
  qed
  moreover have "2 ^ 1024 \<le> nearest_double \<bar>a\<bar> \<bar>b\<bar>"
    using assms by (intro nearest_double_overflow) simp_all
  ultimately show ?thesis
    using assms(1) by (simp add: py_truediv_def Let_def)
qed

lemma float_exponent_1000:
  assumes "0 < n"
  shows "- 1022 \<le> float_exponent n 1000"
proof (rule ccontr)
  assume "\<not> - 1022 \<le> float_exponent n 1000"
  then have "float_exponent n 1000 + 1 \<le> - 10" by simp
  then have "(2::rat) powi (float_exponent n 1000 + 1) \<le> 2 powi (- 10)"
    by (intro power_int_increasing) simp_all
  then have "(2::rat) powi (float_exponent n 1000 + 1) * 1000 \<le> 2 powi (- 10) * 1000"
    by simp
  moreover have "(of_int n :: rat) < 2 powi (float_exponent n 1000 + 1) * of_int 1000"
    by (rule float_exponent_bounds(2) [OF assms]) simp
  moreover have "(1::rat) \<le> of_int n"
    using assms by (simp add: int_one_le_iff_zero_less)
  ultimately have "(1::rat) < 2 powi (- 10) * 1000" by simp
  then show False by (simp add: power_int_minus)
qed

lemma py_truediv_1000_error:
  assumes "py_truediv a 1000 = Inr r"
  shows "\<bar>r * 1000 - of_int a\<bar> \<le> \<bar>of_int a\<bar> / 2 ^ 53"
proof (cases "a = 0")
  case True
  then show ?thesis using assms by (auto simp: py_truediv_def)
next
  case False
  define y where "y = nearest_double \<bar>a\<bar> 1000"
  define x :: rat where "x = of_int \<bar>a\<bar> / 1000"
  have err: "\<bar>y - x\<bar> \<le> x / 2 ^ 53"
    unfolding y_def x_def
    using nearest_double_error [of "\<bar>a\<bar>" 1000] float_exponent_1000 [of "\<bar>a\<bar>"] False
    by simp
  have r: "r = (if a < 0 then - y else y)"
    using assms False by (auto simp: py_truediv_def Let_def y_def split: if_splits)
  have "\<bar>r * 1000 - of_int a\<bar> = \<bar>y - x\<bar> * 1000"
  proof (cases "a < 0")
    case True
    then have "r * 1000 - of_int a = - ((y - x) * 1000)"
      by (simp add: r x_def algebra_simps)
    then have "\<bar>r * 1000 - of_int a\<bar> = \<bar>- ((y - x) * 1000)\<bar>"
      by (simp only:)
    also have "\<dots> = \<bar>y - x\<bar> * 1000"
      by (simp only: abs_minus abs_mult abs_numeral)
    finally show ?thesis .
  next
    case False
    then have "r * 1000 - of_int a = (y - x) * 1000"
      by (simp add: r x_def algebra_simps)
    then have "\<bar>r * 1000 - of_int a\<bar> = \<bar>(y - x) * 1000\<bar>"
      by (simp only:)
    also have "\<dots> = \<bar>y - x\<bar> * 1000"
      by (simp only: abs_mult abs_numeral)
    finally show ?thesis .
  qed
  also have "\<dots> \<le> x / 2 ^ 53 * 1000"
    using err by simp
  also have "\<dots> = \<bar>of_int a\<bar> / 2 ^ 53"
    by (simp add: x_def)
  finally show ?thesis .
qed

subsection \<open>The client\<close>

text \<open>Merging a configuration over the defaults removes no key.\<close>

lemma dict_get_dict_update_present:
  "dict_get d k \<noteq> None \<Longrightarrow> dict_get (dict_update d u) k \<noteq> None"
  by (induction u arbitrary: d) (auto simp: dict_get_dict_set)

lemma init_fields:
  assumes "init wid engine_base_url cfg = Inr c"
  shows "worker_id c = wid"
    and "config c = dict_update default_config (case cfg of None \<Rightarrow> [] | Some u \<Rightarrow> u)"
  using assms by (auto simp: init_def Let_def bindE_eq_Inr)

lemma init_config_item:
  assumes "init wid engine_base_url cfg = Inr c" and "dict_get default_config k \<noteq> None"
  shows "\<exists>v. config_item c k = Inr v"
proof -
  have "dict_get (config c) k \<noteq> None"
    using assms dict_get_dict_update_present by (simp add: init_fields(2))
  then show ?thesis by (auto simp: config_item_def)
qed

lemma default_keys:
  "dict_get default_config ''lockDuration'' \<noteq> None"
  "dict_get default_config ''deserializeValues'' \<noteq> None"
  "dict_get default_config ''asyncResponseTimeout'' \<noteq> None"
  "dict_get default_config ''usePriority'' \<noteq> None"
  "dict_get default_config ''sorting'' \<noteq> None"
  "dict_get default_config ''timeoutDeltaMillis'' \<noteq> None"
  by (simp_all add: default_config_def dict_get_def)

text \<open>
  In a client built by \<^verbatim>\<open>__init__\<close> the loop body of \<^verbatim>\<open>_get_topics\<close> never
  raises, and the loop appends one entry per topic, in order.
\<close>

lemma topic_entry_init:
  assumes "init wid engine_base_url cfg = Inr c"
  shows "\<exists>ld dv. config_item c ''lockDuration'' = Inr ld \<and>
           config_item c ''deserializeValues'' = Inr dv \<and>
           (\<forall>t pv vs. topic_entry c t pv vs =
              Inr [(''topicName'', t),
                   (''lockDuration'', ld),
                   (''processVariables'', if truthy pv then pv else PDict []),
                   (''includeExtensionProperties'',
                      py_or (config_get c ''includeExtensionProperties'') (PBool False)),
                   (''deserializeValues'', dv),
                   (''variables'', vs)])"
proof -
  obtain ld where ld: "config_item c ''lockDuration'' = Inr ld"
    using init_config_item [OF assms default_keys(1)] by blast
  obtain dv where dv: "config_item c ''deserializeValues'' = Inr dv"
    using init_config_item [OF assms default_keys(2)] by blast
  show ?thesis
    using ld dv by (simp add: topic_entry_def)
qed

lemma get_topics_loop_map:
  assumes "\<And>t. topic_entry c t pv vs = Inr (E t)"
  shows "get_topics_loop c ts pv vs acc = Inr (acc @ map E ts)"
  using assms by (induction ts arbitrary: acc) simp_all

lemma get_topics_init:
  assumes "init wid engine_base_url cfg = Inr c"
  shows "\<exists>ld dv. get_topics c tn pv vs =
           Inr (map (\<lambda>t. [(''topicName'', t),
                           (''lockDuration'', ld),
                           (''processVariables'', if truthy pv then pv else PDict []),
                           (''includeExtensionProperties'',
                              py_or (config_get c ''includeExtensionProperties'') (PBool False)),
                           (''deserializeValues'', dv),
                           (''variables'', vs)])
                    (str_to_list tn))"
proof -
  obtain ld dv where "\<forall>t pv vs. topic_entry c t pv vs =
              Inr [(''topicName'', t),
                   (''lockDuration'', ld),
                   (''processVariables'', if truthy pv then pv else PDict []),
                   (''includeExtensionProperties'',
                      py_or (config_get c ''includeExtensionProperties'') (PBool False)),
                   (''deserializeValues'', dv),
                   (''variables'', vs)]"
    using topic_entry_init [OF assms] by blast
  then have E: "\<And>t. topic_entry c t pv vs =
              Inr ((\<lambda>t. [(''topicName'', t),
                   (''lockDuration'', ld),
                   (''processVariables'', if truthy pv then pv else PDict []),
                   (''includeExtensionProperties'',
                      py_or (config_get c ''includeExtensionProperties'') (PBool False)),
                   (''deserializeValues'', dv),
                   (''variables'', vs)]) t)"
    by simp
  show ?thesis
    unfolding get_topics_def get_topics_loop_map [OF E] by auto
qed

lemma fetch_and_lock_body_init:
  assumes "init wid engine_base_url cfg = Inr c"
  shows "\<exists>topics a u s. get_topics c tn pv vs = Inr topics \<and>
           fetch_and_lock_body env c tn pv vs =
             Inr [(''workerId'', PStr (py_str env (worker_id c))),
                  (''maxTasks'', PInt 1),
                  (''topics'', PList (map PDict topics)),
                  (''asyncResponseTimeout'', a),
                  (''usePriority'', u),
                  (''sorting'', s)]"
proof -
  obtain topics where topics: "get_topics c tn pv vs = Inr topics"
    using get_topics_init [OF assms] by blast
  obtain a where a: "config_item c ''asyncResponseTimeout'' = Inr a"
    using init_config_item [OF assms default_keys(3)] by blast
  obtain u where u: "config_item c ''usePriority'' = Inr u"
    using init_config_item [OF assms default_keys(4)] by blast
  obtain s where s: "config_item c ''sorting'' = Inr s"
    using init_config_item [OF assms default_keys(5)] by blast
  show ?thesis
    using topics a u s by (simp add: fetch_and_lock_body_def)
qed

text \<open>The example client is what \<^verbatim>\<open>__init__\<close> returns.\<close>

lemma init_default_client:
  "init (PInt 7) ''http://localhost:8080/engine-rest'' None = Inr (example_client [])"
  by (simp add: init_def example_client_def default_config_def dict_get_def div_1000_def
      py_truediv_examples)

lemma init_zero_delta_client:
  "init (PInt 7) ''http://localhost:8080/engine-rest'' (Some [(''timeoutDeltaMillis'', PInt 0)])
     = Inr (example_client [(''timeoutDeltaMillis'', PInt 0)])"
  by (simp add: init_def example_client_def default_config_def dict_get_def div_1000_def
      py_truediv_examples)

lemma init_one_ms_client:
  "init (PInt 7) ''http://localhost:8080/engine-rest''
       (Some [(''asyncResponseTimeout'', PInt 1), (''timeoutDeltaMillis'', PInt 1000)])
     = Inr (example_client [(''asyncResponseTimeout'', PInt 1), (''timeoutDeltaMillis'', PInt 1000)])"
  by (simp add: init_def example_client_def default_config_def dict_get_def div_1000_def
      py_truediv_examples)

lemma headers_default_client:
  "get_headers env (example_client []) = Inr [(''Content-Type'', PStr ''application/json'')]"
  by (simp add: get_headers_def auth_basic_def auth_bearer_def config_get_def example_client_def
      default_config_def dict_get_def)

text \<open>The requests of a client whose headers can be assembled.\<close>

lemma timeout_default_client:
  "get_fetch_and_lock_http_timeout_seconds (example_client []) = Inr 35"
  by (simp add: get_fetch_and_lock_http_timeout_seconds_def config_item_def example_client_def
      default_config_def dict_get_def py_truediv_examples)

lemma fetch_and_lock_request_init:
  assumes "init wid engine_base_url cfg = Inr c"
    and "get_fetch_and_lock_http_timeout_seconds c = Inr secs"
    and "get_headers env c = Inr h"
  shows "\<exists>body. fetch_and_lock_body env c tn pv vs = Inr body \<and>
           fetch_and_lock_request env c tn pv vs =
             Inr \<lparr>url = get_fetch_and_lock_url c, headers = h, json = body, timeout = secs\<rparr>"
proof -
  obtain body where "fetch_and_lock_body env c tn pv vs = Inr body"
    using fetch_and_lock_body_init [OF assms(1)] by blast
  then show ?thesis
    using assms(2,3) by (simp add: fetch_and_lock_request_def)
qed

lemma reporting_requests:
  assumes "get_headers env c = Inr h"
  shows "complete_request env c task gv lv =
           Inr \<lparr>url = get_task_complete_url env c task, headers = h,
                json = complete_body env c gv lv, timeout = http_timeout_seconds c\<rparr>"
    and "failure_request env c task msg details n rt =
           Inr \<lparr>url = get_task_failure_url env c task, headers = h,
                json = failure_body c msg details n rt, timeout = http_timeout_seconds c\<rparr>"
    and "bpmn_failure_request env c task code msg bv =
           Inr \<lparr>url = get_task_bpmn_error_url env c task, headers = h,
                json = bpmn_failure_body env c code msg bv, timeout = http_timeout_seconds c\<rparr>"
  using assms by (simp_all add: complete_request_def failure_request_def bpmn_failure_request_def)

lemma post_example_env [simp]: "post (example_env answer) req = answer"
  by (simp add: example_env_def)

lemma not_success_500: "\<not> is_success (example_response 500)"
  by (simp add: is_success_def example_response_def)

text \<open>The credential properties and the headers.\<close>

lemma auth_basic_skipped:
  "\<not> truthy (config_get c ''auth_basic'') \<or> \<not> is_dict (config_get c ''auth_basic'')
     \<Longrightarrow> auth_basic env c = Inr []"
  by (simp add: auth_basic_def)

lemma auth_bearer_skipped:
  "\<not> truthy (config_get c ''auth_bearer'') \<or> \<not> is_dict (config_get c ''auth_bearer'')
     \<Longrightarrow> auth_bearer env c = Inr []"
  by (simp add: auth_bearer_def)

lemma auth_basic_token:
  assumes "dict_get (config c) ''auth_basic'' = Some (PDict b)" and "b \<noteq> []"
    and "AuthBasic_token env (PDict b) = Some t"
  shows "auth_basic env c = Inr [(''Authorization'', PStr t)]"
  using assms by (simp add: auth_basic_def config_get_def)

lemma auth_bearer_token:
  assumes "dict_get (config c) ''auth_bearer'' = Some (PDict r)" and "r \<noteq> []"
    and "AuthBearer_access_token env (PDict r) = Some t"
  shows "auth_bearer env c = Inr [(''Authorization'', PStr t)]"
  using assms by (simp add: auth_bearer_def config_get_def config_item_def)

lemma get_headers_basic_skipped:
  assumes "auth_basic env c = Inr []"
  shows "get_headers env c =
    bindE (auth_bearer env c) (\<lambda>bearer.
      Inr (dict_update [(''Content-Type'', PStr ''application/json'')] bearer))"
  using assms by (cases "auth_bearer env c") (simp_all add: get_headers_def)

lemma get_headers_bearer_skipped:
  assumes "auth_bearer env c = Inr []"
  shows "get_headers env c =
    bindE (auth_basic env c) (\<lambda>basic.
      Inr (dict_update [(''Content-Type'', PStr ''application/json'')] basic))"
  using assms by (cases "auth_basic env c") (simp_all add: get_headers_def)

lemma config_both_credentials:
  "dict_get (config (example_client
       [(''auth_basic'', PDict [(''username'', PStr ''demo''), (''password'', PStr ''demo'')]),
        (''auth_bearer'', PDict [(''access_token'', PStr ''t0k3n'')])])) ''auth_basic''
     = Some (PDict [(''username'', PStr ''demo''), (''password'', PStr ''demo'')])"
  "dict_get (config (example_client
       [(''auth_basic'', PDict [(''username'', PStr ''demo''), (''password'', PStr ''demo'')]),
        (''auth_bearer'', PDict [(''access_token'', PStr ''t0k3n'')])])) ''auth_bearer''
     = Some (PDict [(''access_token'', PStr ''t0k3n'')])"
  by (simp_all add: example_client_def default_config_def dict_get_def)

lemma config_no_credentials:
  "dict_get (config (example_client [])) ''auth_basic'' = None"
  "dict_get (config (example_client [])) ''auth_bearer'' = None"
  by (simp_all add: example_client_def default_config_def dict_get_def)

lemma config_non_dict_credentials:
  "dict_get (config (example_client
       [(''auth_basic'', PStr ''demo:demo''), (''auth_bearer'', PInt 42)])) ''auth_basic''
     = Some (PStr ''demo:demo'')"
  "dict_get (config (example_client
       [(''auth_basic'', PStr ''demo:demo''), (''auth_bearer'', PInt 42)])) ''auth_bearer''
     = Some (PInt 42)"
  by (simp_all add: example_client_def default_config_def dict_get_def)

section \<open>The deadline of the long poll\<close>

text \<open>
  Claim C1, as amended. In a client built by \<^verbatim>\<open>__init__\<close> whose configuration holds
  the integers \<open>T\<close> under \<^verbatim>\<open>asyncResponseTimeout\<close> and \<open>D\<close> under
  \<^verbatim>\<open>timeoutDeltaMillis\<close>, and whose headers can be assembled, \<^verbatim>\<open>fetch_and_lock\<close>
  hands the transport a request whose timeout is the quotient \<^verbatim>\<open>(D + T) / 1000\<close> as
  Python computes it from the exact sum: the double nearest to \<open>(T + D) / 1000\<close>
  seconds. Where the division raises, the call raises and nothing is sent; it does so
  from \<open>2 ^ 1024\<close> seconds on. In milliseconds the deadline is within
  \<open>\<bar>T + D\<bar> / 2 ^ 53\<close> of \<open>T + D\<close>. When \<open>T + D\<close> is a multiple of 1000 below
  \<open>2 ^ 53\<close> seconds in absolute value, the deadline is exactly \<open>T + D\<close> milliseconds,
  and it is then greater than \<open>T\<close> exactly when \<open>D\<close> is positive.
\<close>

theorem fetch_and_lock_deadline:
  assumes "init wid engine_base_url cfg = Inr c"
    and "config_item c ''asyncResponseTimeout'' = Inr (PInt T)"
    and "config_item c ''timeoutDeltaMillis'' = Inr (PInt D)"
    and "get_headers env c = Inr h"
  shows "(\<exists>body. fetch_and_lock_body env c tn pv vs = Inr body \<and>
            fetch_and_lock_request env c tn pv vs =
              (case py_truediv (D + T) 1000 of
                 Inl e \<Rightarrow> Inl e
               | Inr secs \<Rightarrow>
                   Inr \<lparr>url = get_fetch_and_lock_url c, headers = h, json = body,
                        timeout = secs\<rparr>)) \<and>
         (\<forall>req. fetch_and_lock_request env c tn pv vs = Inr req \<longrightarrow>
            \<bar>timeout req * 1000 - of_int (T + D)\<bar> \<le> \<bar>of_int (T + D)\<bar> / 2 ^ 53) \<and>
         (1000 dvd (T + D) \<and> \<bar>T + D\<bar> < 1000 * 2 ^ 53 \<longrightarrow>
            (\<exists>req. fetch_and_lock_request env c tn pv vs = Inr req \<and>
               timeout req * 1000 = of_int (T + D) \<and>
               ((of_int T < timeout req * 1000) = (0 < D)))) \<and>
         (2 ^ 1024 * 1000 \<le> \<bar>T + D\<bar> \<longrightarrow>
            fetch_and_lock_request env c tn pv vs = Inl OverflowError)"
proof -
  obtain body where body: "fetch_and_lock_body env c tn pv vs = Inr body"
    using fetch_and_lock_body_init [OF assms(1)] by blast
  have secs: "get_fetch_and_lock_http_timeout_seconds c = py_truediv (D + T) 1000"
    using assms(2,3) by (simp add: get_fetch_and_lock_http_timeout_seconds_def)
  have req: "fetch_and_lock_request env c tn pv vs =
      (case py_truediv (D + T) 1000 of
         Inl e \<Rightarrow> Inl e
       | Inr secs \<Rightarrow>
           Inr \<lparr>url = get_fetch_and_lock_url c, headers = h, json = body, timeout = secs\<rparr>)"
    using body secs assms(4)
    by (cases "py_truediv (D + T) 1000") (simp_all add: fetch_and_lock_request_def)
  have near: "\<bar>timeout rq * 1000 - of_int (T + D)\<bar> \<le> \<bar>of_int (T + D)\<bar> / 2 ^ 53"
    if "fetch_and_lock_request env c tn pv vs = Inr rq" for rq
  proof -
    from that obtain r where r: "py_truediv (D + T) 1000 = Inr r" and "timeout rq = r"
      unfolding req by (cases "py_truediv (D + T) 1000") auto
    then show ?thesis
      using py_truediv_1000_error [OF r] by (simp add: add.commute)
  qed
  have exact: "\<exists>rq. fetch_and_lock_request env c tn pv vs = Inr rq \<and>
        timeout rq * 1000 = of_int (T + D) \<and> ((of_int T < timeout rq * 1000) = (0 < D))"
    if "1000 dvd (T + D) \<and> \<bar>T + D\<bar> < 1000 * 2 ^ 53"
  proof -
    from that obtain k where k: "D + T = 1000 * k"
      by (auto simp: add.commute elim: dvdE)
    have "\<bar>(D + T) div 1000\<bar> < 2 ^ 53"
      using that by (simp add: k add.commute [of T D] abs_mult)
    then have "py_truediv (D + T) 1000 = Inr (of_int ((D + T) div 1000))"
      using that by (intro py_truediv_exact) (simp_all add: add.commute)
    then have r: "py_truediv (D + T) 1000 = Inr (of_int k)"
      by (simp add: k)
    have "(of_int k :: rat) * 1000 = of_int (D + T)"
      by (simp add: k)
    then have ms: "(of_int k :: rat) * 1000 = of_int (T + D)"
      by (simp add: add.commute)
    have "((of_int T :: rat) < of_int (T + D)) = (0 < D)"
      by (simp only: of_int_less_iff) simp
    then show ?thesis
      unfolding req r using ms by simp
  qed
  have over: "fetch_and_lock_request env c tn pv vs = Inl OverflowError"
    if "2 ^ 1024 * 1000 \<le> \<bar>T + D\<bar>"
  proof -
    have "py_truediv (D + T) 1000 = Inl OverflowError"
      using that by (intro py_truediv_overflow) (simp_all add: add.commute)
    then show ?thesis
      unfolding req by simp
  qed
  from body req near exact over show ?thesis
    by (intro conjI allI impI exI [of _ body]) (assumption | simp)+
qed

text \<open>The default configuration: 30000 + 5000 milliseconds, 35 seconds.\<close>

theorem fetch_and_lock_deadline_witness:
  "\<exists>req. fetch_and_lock_request (example_env (Inr (example_response 200))) (example_client [])
            (PList [PStr ''a'']) PNone PNone = Inr req \<and>
     timeout req * 1000 = 35000 \<and> 30000 < timeout req * 1000"
proof -
  have t: "config_item (example_client []) ''asyncResponseTimeout'' = Inr (PInt 30000)"
    by (simp add: config_item_def example_client_def default_config_def dict_get_def)
  have d: "config_item (example_client []) ''timeoutDeltaMillis'' = Inr (PInt 5000)"
    by (simp add: config_item_def example_client_def default_config_def dict_get_def)
  have m: "1000 dvd (30000 + 5000 :: int) \<and> \<bar>30000 + 5000 :: int\<bar> < 1000 * 2 ^ 53"
    by simp
  show ?thesis
    using fetch_and_lock_deadline [OF init_default_client t d headers_default_client,
        where env = "example_env (Inr (example_response 200))" and tn = "PList [PStr ''a'']"
          and pv = PNone and vs = PNone, THEN conjunct2, THEN conjunct2, THEN conjunct1] m
    by simp
qed

text \<open>
  The claim as first stated asks for a deadline of exactly \<open>T + D\<close> milliseconds that is
  strictly greater than \<open>T\<close>, under every configuration. A configuration with
  \<^verbatim>\<open>timeoutDeltaMillis\<close> 0 is accepted like any other, and under it the deadline is
  the long-poll bound itself: 30 seconds for the bound of 30000 milliseconds. And with
  the bound 1 and the delta 1000 the deadline is not 1001 milliseconds, no double
  being 1.001.
\<close>

theorem fetch_and_lock_deadline_counterexample:
  "init (PInt 7) ''http://localhost:8080/engine-rest'' (Some [(''timeoutDeltaMillis'', PInt 0)])
     = Inr (example_client [(''timeoutDeltaMillis'', PInt 0)]) \<and>
   config_item (example_client [(''timeoutDeltaMillis'', PInt 0)]) ''asyncResponseTimeout''
     = Inr (PInt 30000) \<and>
   config_item (example_client [(''timeoutDeltaMillis'', PInt 0)]) ''timeoutDeltaMillis''
     = Inr (PInt 0) \<and>
   get_fetch_and_lock_http_timeout_seconds (example_client [(''timeoutDeltaMillis'', PInt 0)])
     = Inr 30 \<and>
   \<not> (of_int 30000 <
        projr (get_fetch_and_lock_http_timeout_seconds
                 (example_client [(''timeoutDeltaMillis'', PInt 0)])) * 1000) \<and>
   init (PInt 7) ''http://localhost:8080/engine-rest''
       (Some [(''asyncResponseTimeout'', PInt 1), (''timeoutDeltaMillis'', PInt 1000)])
     = Inr (example_client [(''asyncResponseTimeout'', PInt 1), (''timeoutDeltaMillis'', PInt 1000)]) \<and>
   get_fetch_and_lock_http_timeout_seconds
       (example_client [(''asyncResponseTimeout'', PInt 1), (''timeoutDeltaMillis'', PInt 1000)])
     = Inr (4508103226997866 / 2 ^ 52) \<and>
   projr (get_fetch_and_lock_http_timeout_seconds
       (example_client [(''asyncResponseTimeout'', PInt 1), (''timeoutDeltaMillis'', PInt 1000)]))
     * 1000 \<noteq> of_int (1 + 1000)"
  by (simp add: init_zero_delta_client init_one_ms_client
      get_fetch_and_lock_http_timeout_seconds_def config_item_def
      example_client_def default_config_def dict_get_def py_truediv_examples py_truediv_1001)

section \<open>Responses and failures of the transport\<close>

text \<open>
  Claim C2. Take the request that each of the four operations puts together. When the
  transport answers it with a response whose status is not in the 2xx range, the
  operation raises an error that holds that response, and so its status code:
  \<^verbatim>\<open>fetch_and_lock\<close>, \<^verbatim>\<open>complete\<close> and \<^verbatim>\<open>failure\<close> through
  \<^verbatim>\<open>raise_exception_if_not_ok\<close>, \<^verbatim>\<open>bpmn_failure\<close> through the transport library's
  \<^verbatim>\<open>raise_for_status\<close>. When the transport gives no response (a timeout, say), the
  operation raises the transport's error, which is none of the former.
\<close>

theorem rejection_and_timeout_raise:
  assumes "fetch_and_lock_request env c tn pv vs = Inr rq1"
    and "complete_request env c task gv lv = Inr rq2"
    and "failure_request env c task msg details n rt = Inr rq3"
    and "bpmn_failure_request env c task code msg' bv = Inr rq4"
  shows "(post env rq1 = Inr resp \<and> \<not> is_success resp \<longrightarrow>
            fetch_and_lock env c tn pv vs = Inl (OrchestratorError resp)) \<and>
         (post env rq2 = Inr resp \<and> \<not> is_success resp \<longrightarrow>
            complete_task env c task gv lv = Inl (OrchestratorError resp)) \<and>
         (post env rq3 = Inr resp \<and> \<not> is_success resp \<longrightarrow>
            failure env c task msg details n rt = Inl (OrchestratorError resp)) \<and>
         (post env rq4 = Inr resp \<and> \<not> is_success resp \<longrightarrow>
            bpmn_failure env c task code msg' bv = Inl (HTTPStatusError resp)) \<and>
         (post env rq1 = Inl f \<longrightarrow>
            fetch_and_lock env c tn pv vs = Inl (TransportError f)) \<and>
         (post env rq2 = Inl f \<longrightarrow>
            complete_task env c task gv lv = Inl (TransportError f)) \<and>
         (post env rq3 = Inl f \<longrightarrow>
            failure env c task msg details n rt = Inl (TransportError f)) \<and>
         (post env rq4 = Inl f \<longrightarrow>
            bpmn_failure env c task code msg' bv = Inl (TransportError f)) \<and>
         TransportError f \<noteq> OrchestratorError resp \<and>
         TransportError f \<noteq> HTTPStatusError resp"
  using assms
  by (simp add: fetch_and_lock_def complete_task_def failure_def bpmn_failure_def send_def
      raise_exception_if_not_ok_def raise_for_status_def)

text \<open>A status 500 and a timeout, for each of the four operations of the example client.\<close>

theorem rejection_and_timeout_raise_witness:
  "fetch_and_lock (example_env (Inr (example_response 500))) (example_client [])
      (PList [PStr ''a'']) PNone PNone = Inl (OrchestratorError (example_response 500)) \<and>
   complete_task (example_env (Inr (example_response 500))) (example_client [])
      (PStr ''t1'') PNone PNone = Inl (OrchestratorError (example_response 500)) \<and>
   failure (example_env (Inr (example_response 500))) (example_client [])
      (PStr ''t1'') (PStr ''boom'') PNone (PInt 0) (PInt 1000)
      = Inl (OrchestratorError (example_response 500)) \<and>
   bpmn_failure (example_env (Inr (example_response 500))) (example_client [])
      (PStr ''t1'') (PStr ''E1'') (PStr ''boom'') PNone
      = Inl (HTTPStatusError (example_response 500)) \<and>
   fetch_and_lock (example_env (Inl TimeoutException)) (example_client [])
      (PList [PStr ''a'']) PNone PNone = Inl (TransportError TimeoutException) \<and>
   complete_task (example_env (Inl TimeoutException)) (example_client [])
      (PStr ''t1'') PNone PNone = Inl (TransportError TimeoutException) \<and>
   failure (example_env (Inl TimeoutException)) (example_client [])
      (PStr ''t1'') (PStr ''boom'') PNone (PInt 0) (PInt 1000)
      = Inl (TransportError TimeoutException) \<and>
   bpmn_failure (example_env (Inl TimeoutException)) (example_client [])
      (PStr ''t1'') (PStr ''E1'') (PStr ''boom'') PNone
      = Inl (TransportError TimeoutException)"
proof -
  have *: "\<exists>rq1 rq2 rq3 rq4.
      fetch_and_lock_request env (example_client []) (PList [PStr ''a'']) PNone PNone = Inr rq1 \<and>
      complete_request env (example_client []) (PStr ''t1'') PNone PNone = Inr rq2 \<and>
      failure_request env (example_client []) (PStr ''t1'') (PStr ''boom'') PNone (PInt 0) (PInt 1000)
        = Inr rq3 \<and>
      bpmn_failure_request env (example_client []) (PStr ''t1'') (PStr ''E1'') (PStr ''boom'') PNone
        = Inr rq4" for env
    using fetch_and_lock_request_init [OF init_default_client timeout_default_client
        headers_default_client, where env = env and tn = "PList [PStr ''a'']"
          and pv = PNone and vs = PNone]
    by (auto simp: reporting_requests [OF headers_default_client])
  obtain a1 a2 a3 a4 where a:
    "fetch_and_lock_request (example_env (Inr (example_response 500))) (example_client [])
       (PList [PStr ''a'']) PNone PNone = Inr a1"
    "complete_request (example_env (Inr (example_response 500))) (example_client [])
       (PStr ''t1'') PNone PNone = Inr a2"
    "failure_request (example_env (Inr (example_response 500))) (example_client [])
       (PStr ''t1'') (PStr ''boom'') PNone (PInt 0) (PInt 1000) = Inr a3"
    "bpmn_failure_request (example_env (Inr (example_response 500))) (example_client [])
       (PStr ''t1'') (PStr ''E1'') (PStr ''boom'') PNone = Inr a4"
    using * [of "example_env (Inr (example_response 500))"] by blast
  obtain b1 b2 b3 b4 where b:
    "fetch_and_lock_request (example_env (Inl TimeoutException)) (example_client [])
       (PList [PStr ''a'']) PNone PNone = Inr b1"
    "complete_request (example_env (Inl TimeoutException)) (example_client [])
       (PStr ''t1'') PNone PNone = Inr b2"
    "failure_request (example_env (Inl TimeoutException)) (example_client [])
       (PStr ''t1'') (PStr ''boom'') PNone (PInt 0) (PInt 1000) = Inr b3"
    "bpmn_failure_request (example_env (Inl TimeoutException)) (example_client [])
       (PStr ''t1'') (PStr ''E1'') (PStr ''boom'') PNone = Inr b4"
    using * [of "example_env (Inl TimeoutException)"] by blast
  show ?thesis
    using rejection_and_timeout_raise [OF a, where resp = "example_response 500"]
      rejection_and_timeout_raise [OF b, where f = TimeoutException]
    by (simp add: not_success_500)
qed

text \<open>
  Claim C3. When the transport answers the request of \<^verbatim>\<open>complete\<close>, \<^verbatim>\<open>failure\<close>
  or \<^verbatim>\<open>bpmn_failure\<close> with a response, the operation returns whether the status is 204
  if the status is in the 2xx range (so False on any other 2xx status), and raises on
  every other status.
\<close>

theorem report_result_no_content:
  assumes "complete_request env c task gv lv = Inr rq2"
    and "failure_request env c task msg details n rt = Inr rq3"
    and "bpmn_failure_request env c task code msg' bv = Inr rq4"
    and "post env rq2 = Inr resp2"
    and "post env rq3 = Inr resp3"
    and "post env rq4 = Inr resp4"
  shows "complete_task env c task gv lv =
           (if is_success resp2 then Inr (status_code resp2 = 204)
            else Inl (OrchestratorError resp2)) \<and>
         failure env c task msg details n rt =
           (if is_success resp3 then Inr (status_code resp3 = 204)
            else Inl (OrchestratorError resp3)) \<and>
         bpmn_failure env c task code msg' bv =
           (if is_success resp4 then Inr (status_code resp4 = 204)
            else Inl (HTTPStatusError resp4))"
  using assms
  by (simp add: complete_task_def failure_def bpmn_failure_def send_def
      raise_exception_if_not_ok_def raise_for_status_def NO_CONTENT_def)

text \<open>The statuses 204, 200 and 404.\<close>

theorem report_result_no_content_witness:
  "complete_task (example_env (Inr (example_response 204))) (example_client [])
      (PStr ''t1'') PNone PNone = Inr True \<and>
   failure (example_env (Inr (example_response 204))) (example_client [])
      (PStr ''t1'') (PStr ''boom'') PNone (PInt 0) (PInt 1000) = Inr True \<and>
   bpmn_failure (example_env (Inr (example_response 204))) (example_client [])
      (PStr ''t1'') (PStr ''E1'') (PStr ''boom'') PNone = Inr True \<and>
   complete_task (example_env (Inr (example_response 200))) (example_client [])
      (PStr ''t1'') PNone PNone = Inr False \<and>
   failure (example_env (Inr (example_response 200))) (example_client [])
      (PStr ''t1'') (PStr ''boom'') PNone (PInt 0) (PInt 1000) = Inr False \<and>
   bpmn_failure (example_env (Inr (example_response 200))) (example_client [])
      (PStr ''t1'') (PStr ''E1'') (PStr ''boom'') PNone = Inr False \<and>
   complete_task (example_env (Inr (example_response 404))) (example_client [])
      (PStr ''t1'') PNone PNone = Inl (OrchestratorError (example_response 404)) \<and>
   failure (example_env (Inr (example_response 404))) (example_client [])
      (PStr ''t1'') (PStr ''boom'') PNone (PInt 0) (PInt 1000)
      = Inl (OrchestratorError (example_response 404)) \<and>
   bpmn_failure (example_env (Inr (example_response 404))) (example_client [])
      (PStr ''t1'') (PStr ''E1'') (PStr ''boom'') PNone
      = Inl (HTTPStatusError (example_response 404))"
proof -
  have "complete_task (example_env (Inr (example_response s))) (example_client [])
            (PStr ''t1'') PNone PNone =
          (if is_success (example_response s) then Inr (status_code (example_response s) = 204)
           else Inl (OrchestratorError (example_response s))) \<and>
        failure (example_env (Inr (example_response s))) (example_client [])
            (PStr ''t1'') (PStr ''boom'') PNone (PInt 0) (PInt 1000) =
          (if is_success (example_response s) then Inr (status_code (example_response s) = 204)
           else Inl (OrchestratorError (example_response s))) \<and>
        bpmn_failure (example_env (Inr (example_response s))) (example_client [])
            (PStr ''t1'') (PStr ''E1'') (PStr ''boom'') PNone =
          (if is_success (example_response s) then Inr (status_code (example_response s) = 204)
           else Inl (HTTPStatusError (example_response s)))" for s
    by (rule report_result_no_content
        [OF reporting_requests [OF headers_default_client]
            post_example_env post_example_env post_example_env])
  from this [of 204] this [of 200] this [of 404] show ?thesis
    by (simp add: is_success_def example_response_def)
qed

section \<open>Subscriptions\<close>

text \<open>
  Claim C4. In a client built by \<^verbatim>\<open>__init__\<close>, \<^verbatim>\<open>_get_topics\<close> on a list of topic
  names builds one subscription per name, in the order of the list, and
  \<^verbatim>\<open>fetch_and_lock\<close> puts them under \<^verbatim>\<open>topics\<close> in its body; every subscription
  holds the same \<^verbatim>\<open>processVariables\<close>, and two of them agree on every key but
  \<^verbatim>\<open>topicName\<close>. For the names a and b and the process variables \<^verbatim>\<open>{"x": {}}\<close> there
  are exactly two subscriptions, the second being the first with the topic name b.
\<close>

theorem one_subscription_per_topic:
  assumes "init wid engine_base_url cfg = Inr c"
  shows "(\<exists>subs body.
            get_topics c (PList names) pv vs = Inr subs \<and>
            fetch_and_lock_body env c (PList names) pv vs = Inr body \<and>
            dict_get body ''topics'' = Some (PList (map PDict subs)) \<and>
            length subs = length names \<and>
            (\<forall>i<length names. dict_get (subs ! i) ''topicName'' = Some (names ! i)) \<and>
            (\<forall>i<length names. dict_get (subs ! i) ''processVariables''
                = Some (if truthy pv then pv else PDict [])) \<and>
            (\<forall>i<length names. \<forall>j<length names. \<forall>k. k \<noteq> ''topicName'' \<longrightarrow>
                dict_get (subs ! i) k = dict_get (subs ! j) k)) \<and>
         (\<exists>s1 s2.
            get_topics c (PList [PStr ''a'', PStr ''b'']) (PDict [(''x'', PDict [])]) vs
              = Inr [s1, s2] \<and>
            dict_get s1 ''processVariables'' = Some (PDict [(''x'', PDict [])]) \<and>
            dict_get s2 ''processVariables'' = Some (PDict [(''x'', PDict [])]) \<and>
            dict_get s1 ''topicName'' = Some (PStr ''a'') \<and>
            dict_get s2 ''topicName'' = Some (PStr ''b'') \<and>
            s2 = dict_set s1 ''topicName'' (PStr ''b'') \<and>
            (\<forall>k. k \<noteq> ''topicName'' \<longrightarrow> dict_get s1 k = dict_get s2 k))"
proof -
  obtain topics a u s where body: "get_topics c (PList names) pv vs = Inr topics"
      "fetch_and_lock_body env c (PList names) pv vs =
         Inr [(''workerId'', PStr (py_str env (worker_id c))), (''maxTasks'', PInt 1),
              (''topics'', PList (map PDict topics)), (''asyncResponseTimeout'', a),
              (''usePriority'', u), (''sorting'', s)]"
    using fetch_and_lock_body_init [OF assms] by blast
  obtain ld dv where "get_topics c (PList names) pv vs =
      Inr (map (\<lambda>t. [(''topicName'', t), (''lockDuration'', ld),
                      (''processVariables'', if truthy pv then pv else PDict []),
                      (''includeExtensionProperties'',
                         py_or (config_get c ''includeExtensionProperties'') (PBool False)),
                      (''deserializeValues'', dv), (''variables'', vs)])
               (str_to_list (PList names)))"
    using get_topics_init [OF assms] by blast
  with body(1) have topics: "topics =
      map (\<lambda>t. [(''topicName'', t), (''lockDuration'', ld),
                 (''processVariables'', if truthy pv then pv else PDict []),
                 (''includeExtensionProperties'',
                    py_or (config_get c ''includeExtensionProperties'') (PBool False)),
                 (''deserializeValues'', dv), (''variables'', vs)]) names"
    by simp
  have general: "\<exists>subs body.
            get_topics c (PList names) pv vs = Inr subs \<and>
            fetch_and_lock_body env c (PList names) pv vs = Inr body \<and>
            dict_get body ''topics'' = Some (PList (map PDict subs)) \<and>
            length subs = length names \<and>
            (\<forall>i<length names. dict_get (subs ! i) ''topicName'' = Some (names ! i)) \<and>
            (\<forall>i<length names. dict_get (subs ! i) ''processVariables''
                = Some (if truthy pv then pv else PDict [])) \<and>
            (\<forall>i<length names. \<forall>j<length names. \<forall>k. k \<noteq> ''topicName'' \<longrightarrow>
                dict_get (subs ! i) k = dict_get (subs ! j) k)"
    unfolding body topics by (simp add: dict_get_def)
  obtain ld' dv' where "get_topics c (PList [PStr ''a'', PStr ''b'']) (PDict [(''x'', PDict [])]) vs =
      Inr (map (\<lambda>t. [(''topicName'', t), (''lockDuration'', ld'),
                      (''processVariables'',
                         if truthy (PDict [(''x'', PDict [])]) then PDict [(''x'', PDict [])]
                         else PDict []),
                      (''includeExtensionProperties'',
                         py_or (config_get c ''includeExtensionProperties'') (PBool False)),
                      (''deserializeValues'', dv'), (''variables'', vs)])
               (str_to_list (PList [PStr ''a'', PStr ''b''])))"
    using get_topics_init [OF assms] by blast
  then have two: "\<exists>s1 s2.
            get_topics c (PList [PStr ''a'', PStr ''b'']) (PDict [(''x'', PDict [])]) vs
              = Inr [s1, s2] \<and>
            dict_get s1 ''processVariables'' = Some (PDict [(''x'', PDict [])]) \<and>
            dict_get s2 ''processVariables'' = Some (PDict [(''x'', PDict [])]) \<and>
            dict_get s1 ''topicName'' = Some (PStr ''a'') \<and>
            dict_get s2 ''topicName'' = Some (PStr ''b'') \<and>
            s2 = dict_set s1 ''topicName'' (PStr ''b'') \<and>
            (\<forall>k. k \<noteq> ''topicName'' \<longrightarrow> dict_get s1 k = dict_get s2 k)"
    by (simp add: dict_get_def)
  from general two show ?thesis by blast
qed

text \<open>The two subscriptions of the example client.\<close>

theorem one_subscription_per_topic_witness:
  "\<exists>s1 s2.
     get_topics (example_client []) (PList [PStr ''a'', PStr ''b'']) (PDict [(''x'', PDict [])]) PNone
       = Inr [s1, s2] \<and>
     dict_get s1 ''processVariables'' = Some (PDict [(''x'', PDict [])]) \<and>
     dict_get s2 ''processVariables'' = Some (PDict [(''x'', PDict [])]) \<and>
     dict_get s1 ''topicName'' = Some (PStr ''a'') \<and>
     dict_get s2 ''topicName'' = Some (PStr ''b'') \<and>
     s2 = dict_set s1 ''topicName'' (PStr ''b'') \<and>
     (\<forall>k. k \<noteq> ''topicName'' \<longrightarrow> dict_get s1 k = dict_get s2 k)"
  by (rule one_subscription_per_topic [OF init_default_client, THEN conjunct2])

section \<open>Credentials\<close>

text \<open>
  Claim C5. When the configuration holds a non-empty dictionary under both
  \<^verbatim>\<open>auth_basic\<close> and \<^verbatim>\<open>auth_bearer\<close> and each credential class yields a header
  value, the assembled headers hold the bearer value under \<^verbatim>\<open>Authorization\<close>: the
  bearer entry is written after the basic one. When the configuration holds neither
  entry, the headers have no \<^verbatim>\<open>Authorization\<close> key.
\<close>

theorem bearer_overrides_basic:
  "(dict_get (config c) ''auth_basic'' = Some (PDict b) \<and> b \<noteq> [] \<and>
    AuthBasic_token env (PDict b) = Some tb \<and>
    dict_get (config c) ''auth_bearer'' = Some (PDict r) \<and> r \<noteq> [] \<and>
    AuthBearer_access_token env (PDict r) = Some tr \<longrightarrow>
      (\<exists>h. get_headers env c = Inr h \<and>
           dict_get h ''Authorization'' = Some (PStr tr) \<and>
           h = [(''Content-Type'', PStr ''application/json''), (''Authorization'', PStr tr)])) \<and>
   (dict_get (config c) ''auth_basic'' = None \<and> dict_get (config c) ''auth_bearer'' = None \<longrightarrow>
      (\<exists>h. get_headers env c = Inr h \<and>
           dict_get h ''Authorization'' = None \<and>
           h = [(''Content-Type'', PStr ''application/json'')]))"
proof (intro conjI impI)
  assume a: "dict_get (config c) ''auth_basic'' = Some (PDict b) \<and> b \<noteq> [] \<and>
    AuthBasic_token env (PDict b) = Some tb \<and>
    dict_get (config c) ''auth_bearer'' = Some (PDict r) \<and> r \<noteq> [] \<and>
    AuthBearer_access_token env (PDict r) = Some tr"
  have basic: "auth_basic env c = Inr [(''Authorization'', PStr tb)]"
    using a by (simp add: auth_basic_token)
  have bearer: "auth_bearer env c = Inr [(''Authorization'', PStr tr)]"
    using a by (simp add: auth_bearer_token)
  show "\<exists>h. get_headers env c = Inr h \<and>
           dict_get h ''Authorization'' = Some (PStr tr) \<and>
           h = [(''Content-Type'', PStr ''application/json''), (''Authorization'', PStr tr)]"
    by (simp add: get_headers_def basic bearer dict_get_def)
next
  assume n: "dict_get (config c) ''auth_basic'' = None \<and> dict_get (config c) ''auth_bearer'' = None"
  have basic: "auth_basic env c = Inr []"
    using n by (simp add: auth_basic_skipped config_get_def)
  have bearer: "auth_bearer env c = Inr []"
    using n by (simp add: auth_bearer_skipped config_get_def)
  show "\<exists>h. get_headers env c = Inr h \<and>
           dict_get h ''Authorization'' = None \<and>
           h = [(''Content-Type'', PStr ''application/json'')]"
    by (simp add: get_headers_def basic bearer dict_get_def)
qed

text \<open>A client configured with both strategies, and one with none.\<close>

theorem bearer_overrides_basic_witness:
  "get_headers (example_env (Inr (example_response 204)))
     (example_client
       [(''auth_basic'', PDict [(''username'', PStr ''demo''), (''password'', PStr ''demo'')]),
        (''auth_bearer'', PDict [(''access_token'', PStr ''t0k3n'')])])
     = Inr [(''Content-Type'', PStr ''application/json''),
            (''Authorization'', PStr ''Bearer t0k3n'')] \<and>
   get_headers (example_env (Inr (example_response 204))) (example_client [])
     = Inr [(''Content-Type'', PStr ''application/json'')]"
proof -
  have t: "AuthBasic_token (example_env (Inr (example_response 204)))
             (PDict [(''username'', PStr ''demo''), (''password'', PStr ''demo'')])
           = Some ''Basic ZGVtbzpkZW1v''"
    "AuthBearer_access_token (example_env (Inr (example_response 204)))
             (PDict [(''access_token'', PStr ''t0k3n'')])
           = Some ''Bearer t0k3n''"
    by (simp_all add: example_env_def)
  show ?thesis
    using bearer_overrides_basic [where env = "example_env (Inr (example_response 204))"
        and c = "example_client
          [(''auth_basic'', PDict [(''username'', PStr ''demo''), (''password'', PStr ''demo'')]),
           (''auth_bearer'', PDict [(''access_token'', PStr ''t0k3n'')])]"
        and b = "[(''username'', PStr ''demo''), (''password'', PStr ''demo'')]"
        and r = "[(''access_token'', PStr ''t0k3n'')]"
        and tb = "''Basic ZGVtbzpkZW1v''" and tr = "''Bearer t0k3n''"]
      bearer_overrides_basic [where env = "example_env (Inr (example_response 204))"
        and c = "example_client []"]
    by (simp add: config_both_credentials config_no_credentials t)
qed


text \<open>
  Claim C10. When the configuration holds under \<^verbatim>\<open>auth_basic\<close> (or under
  \<^verbatim>\<open>auth_bearer\<close>) a value that is not a dictionary, such as a string or a number,
  the property gives the empty dictionary and raises nothing, and the headers are those
  that the other strategy alone gives. With both entries of this shape the headers are
  assembled without error and have no \<^verbatim>\<open>Authorization\<close> key.
\<close>

theorem non_dict_credentials_ignored:
  "(dict_get (config c) ''auth_basic'' = Some v \<and> \<not> is_dict v \<longrightarrow>
      auth_basic env c = Inr [] \<and>
      get_headers env c =
        bindE (auth_bearer env c) (\<lambda>bearer.
          Inr (dict_update [(''Content-Type'', PStr ''application/json'')] bearer))) \<and>
   (dict_get (config c) ''auth_bearer'' = Some w \<and> \<not> is_dict w \<longrightarrow>
      auth_bearer env c = Inr [] \<and>
      get_headers env c =
        bindE (auth_basic env c) (\<lambda>basic.
          Inr (dict_update [(''Content-Type'', PStr ''application/json'')] basic))) \<and>
   (dict_get (config c) ''auth_basic'' = Some v \<and> \<not> is_dict v \<and>
    dict_get (config c) ''auth_bearer'' = Some w \<and> \<not> is_dict w \<longrightarrow>
      get_headers env c = Inr [(''Content-Type'', PStr ''application/json'')] \<and>
      dict_get [(''Content-Type'', PStr ''application/json'')] ''Authorization'' = None)"
proof (intro conjI impI)
  assume a: "dict_get (config c) ''auth_basic'' = Some v \<and> \<not> is_dict v"
  then show b: "auth_basic env c = Inr []"
    by (simp add: auth_basic_skipped config_get_def)
  show "get_headers env c =
        bindE (auth_bearer env c) (\<lambda>bearer.
          Inr (dict_update [(''Content-Type'', PStr ''application/json'')] bearer))"
    by (rule get_headers_basic_skipped [OF b])
next
  assume a: "dict_get (config c) ''auth_bearer'' = Some w \<and> \<not> is_dict w"
  then show b: "auth_bearer env c = Inr []"
    by (simp add: auth_bearer_skipped config_get_def)
  show "get_headers env c =
        bindE (auth_basic env c) (\<lambda>basic.
          Inr (dict_update [(''Content-Type'', PStr ''application/json'')] basic))"
    by (rule get_headers_bearer_skipped [OF b])
next
  assume a: "dict_get (config c) ''auth_basic'' = Some v \<and> \<not> is_dict v \<and>
    dict_get (config c) ''auth_bearer'' = Some w \<and> \<not> is_dict w"
  have b: "auth_basic env c = Inr []"
    using a by (simp add: auth_basic_skipped config_get_def)
  have r: "auth_bearer env c = Inr []"
    using a by (simp add: auth_bearer_skipped config_get_def)
  show "get_headers env c = Inr [(''Content-Type'', PStr ''application/json'')]"
    by (simp add: get_headers_basic_skipped [OF b] r)
next
  show "dict_get [(''Content-Type'', PStr ''application/json'')] ''Authorization'' = None"
    by (simp add: dict_get_def)
qed

text \<open>A string under \<^verbatim>\<open>auth_basic\<close> and a number under \<^verbatim>\<open>auth_bearer\<close>.\<close>

theorem non_dict_credentials_ignored_witness:
  "auth_basic (example_env (Inr (example_response 204)))
     (example_client [(''auth_basic'', PStr ''demo:demo''), (''auth_bearer'', PInt 42)]) = Inr [] \<and>
   auth_bearer (example_env (Inr (example_response 204)))
     (example_client [(''auth_basic'', PStr ''demo:demo''), (''auth_bearer'', PInt 42)]) = Inr [] \<and>
   get_headers (example_env (Inr (example_response 204)))
     (example_client [(''auth_basic'', PStr ''demo:demo''), (''auth_bearer'', PInt 42)])
     = Inr [(''Content-Type'', PStr ''application/json'')]"
  using non_dict_credentials_ignored [where env = "example_env (Inr (example_response 204))"
      and c = "example_client [(''auth_basic'', PStr ''demo:demo''), (''auth_bearer'', PInt 42)]"
      and v = "PStr ''demo:demo''" and w = "PInt 42"]
  by (simp add: config_non_dict_credentials)

section \<open>Request bodies of the reporting operations\<close>

text \<open>
  Claim C6. The body that \<^verbatim>\<open>failure\<close> sends has no \<^verbatim>\<open>errorDetails\<close> key when the
  error details are None or the empty string: it is the four other entries alone. When
  the error details are truthy, a non-empty string in particular, the body holds them
  under \<^verbatim>\<open>errorDetails\<close>. This body is the one in the request.
\<close>

theorem failure_error_details:
  "(details = PNone \<or> details = PStr [] \<longrightarrow>
      dict_get (failure_body c msg details n rt) ''errorDetails'' = None \<and>
      failure_body c msg details n rt =
        [(''workerId'', worker_id c), (''errorMessage'', msg), (''retries'', n),
         (''retryTimeout'', rt)]) \<and>
   (truthy details \<longrightarrow>
      dict_get (failure_body c msg details n rt) ''errorDetails'' = Some details) \<and>
   (s \<noteq> [] \<longrightarrow>
      dict_get (failure_body c msg (PStr s) n rt) ''errorDetails'' = Some (PStr s)) \<and>
   (failure_request env c task msg details n rt = Inr rq \<longrightarrow>
      json rq = failure_body c msg details n rt)"
  by (auto simp: failure_body_def dict_get_def failure_request_def bindE_eq_Inr)

text \<open>No details, empty details, and a stack trace.\<close>

theorem failure_error_details_witness:
  "dict_get (failure_body (example_client []) (PStr ''boom'') PNone (PInt 0) (PInt 1000))
     ''errorDetails'' = None \<and>
   dict_get (failure_body (example_client []) (PStr ''boom'') (PStr []) (PInt 0) (PInt 1000))
     ''errorDetails'' = None \<and>
   dict_get (failure_body (example_client []) (PStr ''boom'') (PStr ''trace'') (PInt 0) (PInt 1000))
     ''errorDetails'' = Some (PStr ''trace'') \<and>
   json (projr (failure_request (example_env (Inr (example_response 204))) (example_client [])
       (PStr ''t1'') (PStr ''boom'') PNone (PInt 0) (PInt 1000)))
     = [(''workerId'', PInt 7), (''errorMessage'', PStr ''boom''), (''retries'', PInt 0),
        (''retryTimeout'', PInt 1000)]"
proof -
  have rq: "failure_request (example_env (Inr (example_response 204))) (example_client [])
       (PStr ''t1'') (PStr ''boom'') PNone (PInt 0) (PInt 1000)
     = Inr (projr (failure_request (example_env (Inr (example_response 204))) (example_client [])
       (PStr ''t1'') (PStr ''boom'') PNone (PInt 0) (PInt 1000)))"
    by (simp add: reporting_requests [OF headers_default_client])
  have w: "worker_id (example_client []) = PInt 7"
    by (simp add: example_client_def)
  show ?thesis
    using failure_error_details [where details = PNone and c = "example_client []"
        and msg = "PStr ''boom''" and n = "PInt 0" and rt = "PInt 1000" and s = "''trace''"
        and env = "example_env (Inr (example_response 204))" and task = "PStr ''t1''"
        and rq = "projr (failure_request (example_env (Inr (example_response 204)))
           (example_client []) (PStr ''t1'') (PStr ''boom'') PNone (PInt 0) (PInt 1000))"]
      failure_error_details [where details = "PStr []" and c = "example_client []"
        and msg = "PStr ''boom''" and n = "PInt 0" and rt = "PInt 1000" and s = "''trace''"]
      rq
    by (simp add: w dict_get_def)
qed

text \<open>
  Claim C7. Whatever the task and the global variables, building the body of
  \<^verbatim>\<open>complete\<close> with the local variables None raises nothing (the body is a value, not
  an error): the formatter is applied to None, gives the empty mapping, and that is put
  under \<^verbatim>\<open>localVariables\<close>. With headers at hand the request is put together.
\<close>

theorem complete_without_local_variables:
  "Variables_format env PNone = PDict [] \<and>
   complete_body env c gv PNone =
     [(''workerId'', worker_id c), (''variables'', Variables_format env gv),
      (''localVariables'', PDict [])] \<and>
   dict_get (complete_body env c gv PNone) ''localVariables'' = Some (PDict []) \<and>
   (get_headers env c = Inr h \<longrightarrow>
      complete_request env c task gv PNone =
        Inr \<lparr>url = get_task_complete_url env c task, headers = h,
             json = complete_body env c gv PNone, timeout = http_timeout_seconds c\<rparr>)"
  by (simp add: Variables_format_def complete_body_def dict_get_def complete_request_def)

text \<open>The request of the example client for the task t1.\<close>

theorem complete_without_local_variables_witness:
  "complete_request (example_env (Inr (example_response 204))) (example_client [])
      (PStr ''t1'') (PDict [(''a'', PInt 1)]) PNone =
     Inr \<lparr>url = ''http://localhost:8080/engine-rest/external-task/t1/complete'',
          headers = [(''Content-Type'', PStr ''application/json'')],
          json = [(''workerId'', PInt 7), (''variables'', PDict [(''a'', PInt 1)]),
                  (''localVariables'', PDict [])],
          timeout = 30\<rparr>"
  using complete_without_local_variables [where env = "example_env (Inr (example_response 204))"
      and c = "example_client []" and gv = "PDict [(''a'', PInt 1)]" and task = "PStr ''t1''"
      and h = "[(''Content-Type'', PStr ''application/json'')]"]
    headers_default_client [of "example_env (Inr (example_response 204))"]
  by (simp add: get_task_complete_url_def example_client_def example_env_def
      Variables_format_def)

section \<open>The worker identifier\<close>

text \<open>
  Claim C8. In a client built by \<^verbatim>\<open>__init__\<close> for the worker \<open>wid\<close>, the body of
  \<^verbatim>\<open>fetch_and_lock\<close> holds \<^verbatim>\<open>str(wid)\<close>, a string, under \<^verbatim>\<open>workerId\<close>, while the
  bodies of \<^verbatim>\<open>complete\<close>, \<^verbatim>\<open>failure\<close> and \<^verbatim>\<open>bpmn_failure\<close> hold \<open>wid\<close> itself; when
  \<open>wid\<close> is not a string the two are of different types.
\<close>

theorem worker_id_coercion:
  assumes "init wid engine_base_url cfg = Inr c"
  shows "\<exists>body. fetch_and_lock_body env c tn pv vs = Inr body \<and>
           dict_get body ''workerId'' = Some (PStr (py_str env wid)) \<and>
           dict_get (complete_body env c gv lv) ''workerId'' = Some wid \<and>
           dict_get (failure_body c msg details n rt) ''workerId'' = Some wid \<and>
           dict_get (bpmn_failure_body env c code msg' bv) ''workerId'' = Some wid \<and>
           (\<not> is_str wid \<longrightarrow> type_of (PStr (py_str env wid)) \<noteq> type_of wid)"
proof -
  have w: "worker_id c = wid"
    using assms by (rule init_fields(1))
  obtain topics a u s where body: "fetch_and_lock_body env c tn pv vs =
      Inr [(''workerId'', PStr (py_str env (worker_id c))), (''maxTasks'', PInt 1),
           (''topics'', PList (map PDict topics)), (''asyncResponseTimeout'', a),
           (''usePriority'', u), (''sorting'', s)]"
    using fetch_and_lock_body_init [OF assms] by blast
  have t: "\<not> is_str wid \<longrightarrow> type_of (PStr (py_str env wid)) \<noteq> type_of wid"
    by (cases wid) simp_all
  show ?thesis
    unfolding body using t
    by (simp add: w dict_get_def complete_body_def failure_body_def bpmn_failure_body_def
        Let_def)
qed

text \<open>The worker 7: the string ``7'' on one side, the number on the other.\<close>

theorem worker_id_coercion_witness:
  "\<exists>body. fetch_and_lock_body (example_env (Inr (example_response 204))) (example_client [])
            (PStr ''a'') PNone PNone = Inr body \<and>
     dict_get body ''workerId'' = Some (PStr ''7'') \<and>
     dict_get (complete_body (example_env (Inr (example_response 204))) (example_client [])
       PNone PNone) ''workerId'' = Some (PInt 7) \<and>
     dict_get (failure_body (example_client []) (PStr ''boom'') PNone (PInt 0) (PInt 1000))
       ''workerId'' = Some (PInt 7) \<and>
     dict_get (bpmn_failure_body (example_env (Inr (example_response 204))) (example_client [])
       (PStr ''E1'') (PStr ''boom'') PNone) ''workerId'' = Some (PInt 7) \<and>
     type_of (PStr ''7'') \<noteq> type_of (PInt 7)"
  using worker_id_coercion [OF init_default_client,
      where env = "example_env (Inr (example_response 204))" and tn = "PStr ''a''"
        and pv = PNone and vs = PNone and gv = PNone and lv = PNone
        and msg = "PStr ''boom''" and details = PNone and n = "PInt 0" and rt = "PInt 1000"
        and code = "PStr ''E1''" and msg' = "PStr ''boom''" and bv = PNone]
  by (simp add: example_env_def)

section \<open>Absent process variables and variable filter\<close>

text \<open>
  Claim C9. In a client built by \<^verbatim>\<open>__init__\<close>, when the process variables are None or
  any other falsy value, every subscription built holds the empty mapping under
  \<^verbatim>\<open>processVariables\<close> and the \<^verbatim>\<open>variables\<close> argument, unchanged, under
  \<^verbatim>\<open>variables\<close>: the key is present also when the argument is None.
\<close>

theorem falsy_process_variables:
  assumes "init wid engine_base_url cfg = Inr c" and "\<not> truthy pv"
  shows "\<exists>subs body. get_topics c tn pv vs = Inr subs \<and>
           fetch_and_lock_body env c tn pv vs = Inr body \<and>
           dict_get body ''topics'' = Some (PList (map PDict subs)) \<and>
           length subs = length (str_to_list tn) \<and>
           (\<forall>s\<in>set subs. dict_get s ''processVariables'' = Some (PDict []) \<and>
                          dict_get s ''variables'' = Some vs)"
proof -
  obtain topics a u s where body: "get_topics c tn pv vs = Inr topics"
      "fetch_and_lock_body env c tn pv vs =
         Inr [(''workerId'', PStr (py_str env (worker_id c))), (''maxTasks'', PInt 1),
              (''topics'', PList (map PDict topics)), (''asyncResponseTimeout'', a),
              (''usePriority'', u), (''sorting'', s)]"
    using fetch_and_lock_body_init [OF assms(1)] by blast
  obtain ld dv where "get_topics c tn pv vs =
      Inr (map (\<lambda>t. [(''topicName'', t), (''lockDuration'', ld),
                      (''processVariables'', if truthy pv then pv else PDict []),
                      (''includeExtensionProperties'',
                         py_or (config_get c ''includeExtensionProperties'') (PBool False)),
                      (''deserializeValues'', dv), (''variables'', vs)])
               (str_to_list tn))"
    using get_topics_init [OF assms(1)] by blast
  with body(1) have topics: "topics =
      map (\<lambda>t. [(''topicName'', t), (''lockDuration'', ld),
                 (''processVariables'', if truthy pv then pv else PDict []),
                 (''includeExtensionProperties'',
                    py_or (config_get c ''includeExtensionProperties'') (PBool False)),
                 (''deserializeValues'', dv), (''variables'', vs)]) (str_to_list tn)"
    by simp
  show ?thesis
    unfolding body topics using assms(2) by (auto simp: dict_get_def)
qed

text \<open>Two topics, neither process variables nor a filter.\<close>

theorem falsy_process_variables_witness:
  "\<exists>subs body. get_topics (example_client []) (PList [PStr ''a'', PStr ''b'']) PNone PNone
       = Inr subs \<and>
     fetch_and_lock_body (example_env (Inr (example_response 204))) (example_client [])
       (PList [PStr ''a'', PStr ''b'']) PNone PNone = Inr body \<and>
     dict_get body ''topics'' = Some (PList (map PDict subs)) \<and>
     length subs = 2 \<and>
     (\<forall>s\<in>set subs. dict_get s ''processVariables'' = Some (PDict []) \<and>
                    dict_get s ''variables'' = Some PNone)"
proof -
  have f: "\<not> truthy PNone" by simp
  obtain subs body where
    "get_topics (example_client []) (PList [PStr ''a'', PStr ''b'']) PNone PNone = Inr subs"
    "fetch_and_lock_body (example_env (Inr (example_response 204))) (example_client [])
       (PList [PStr ''a'', PStr ''b'']) PNone PNone = Inr body"
    "dict_get body ''topics'' = Some (PList (map PDict subs))"
    "length subs = length (str_to_list (PList [PStr ''a'', PStr ''b'']))"
    "\<forall>s\<in>set subs. dict_get s ''processVariables'' = Some (PDict []) \<and>
                   dict_get s ''variables'' = Some PNone"
    using falsy_process_variables [OF init_default_client f,
        where env = "example_env (Inr (example_response 204))"
          and tn = "PList [PStr ''a'', PStr ''b'']" and vs = PNone]
    by (elim exE conjE) (rule that, assumption+)
  then show ?thesis
    by (intro exI [of _ subs] exI [of _ body]) simp
qed

end
